theory Spec2Isabelle
  imports Main "HOL-Library.Word" "HOL-Library.AList" "HOL-Library.List_Lexorder"
    "HOL-Library.Multiset"
begin

section \<open>Data model\<close>

text \<open>
  Byte slices are lists of 8-bit words. \<open>common.Address\<close> (20 bytes) and
  \<open>common.Hash\<close> (32 bytes) are byte arrays; \<open>addr.Bytes()\<close> and
  \<open>hash.Bytes()\<close> are the identity on this representation. A slice that the
  code compares with \<open>nil\<close> is a \<open>bytes option\<close>, with \<open>None\<close> for \<open>nil\<close>.

  A Go map is an association list with distinct keys: \<open>map_of\<close> reads it,
  \<open>AList.update\<close> writes it, and the order of the list stands for the order
  in which the Go runtime happens to traverse the map in a \<open>range\<close> loop.
\<close>

type_synonym bytes = "8 word list"
type_synonym Address = bytes
type_synonym Hash = bytes
type_synonym ('k, 'v) gomap = "('k \<times> 'v) list"
type_synonym Storage = "(Hash, Hash) gomap"

definition zeroHash :: Hash where
  "zeroHash = replicate 32 0"

definition len :: "bytes option \<Rightarrow> nat" where
  "len b = (case b of None \<Rightarrow> 0 | Some xs \<Rightarrow> length xs)"

datatype panic = NilPointerDereference | NilMapAssignment

datatype error =
    NotFound
  | StoreFailure
  | KeyNotFound
  | CantLoadCodeHash bytes error
  | CantLoadCodeSize bytes error
  | GetDeleteStateObjectError Address error
  | CommitAborted
  | ErrorEncodingJson
  | CommitErrorStateObject
  | CommitErrorMetadata
  | CommitErrorStorage
  | FailedToStoreMetadata
  | FailedToStoreStorage

record StateAccount =
  Nonce :: "64 word"
  Balance :: int
  CodeHash :: bytes
  Storage :: "(Hash, bytes) gomap"

record storageAccount =
  sA_Nonce :: "64 word"
  sA_Balance :: int
  sA_CodeHash :: bytes

record MetadataRecord =
  mr_Nonce :: "64 word"
  mr_Balance :: int
  mr_CodeHash :: bytes
  mr_Code :: bytes

text \<open>
  The packages \<open>common\<close>, \<open>crypto\<close>, \<open>encoding/json\<close>, \<open>ethdb\<close> and the key
  schema of \<open>rawdb\<close> are collaborators whose code is not part of the sources at
  hand. Every function that calls one of them takes them as the parameter
  \<open>c\<close>, and the theorems hold for every value of it. A store can fail:
  \<open>read_error c db k\<close> is the error that \<open>Get\<close> and \<open>Has\<close> of the store
  return for the key, and \<open>iterator_error c db pre\<close> the one that an iterator
  over the prefix reports, \<open>None\<close> when the store works (a memory database
  always does).
\<close>

record deps =
  BytesToHash :: "bytes \<Rightarrow> Hash"
  Hash_SetBytes :: "bytes \<Rightarrow> Hash"
  Keccak256Hash :: "bytes \<Rightarrow> Hash"
  EmptyCodeHash :: Hash
  codeKey :: "Hash \<Rightarrow> bytes"
  metadataKey :: "Address \<Rightarrow> bytes"
  storageKey :: "Address \<Rightarrow> Hash \<Rightarrow> bytes"
  MetadataPrefix :: bytes
  jsonMarshalAccount :: "storageAccount \<Rightarrow> bytes option"
  jsonMarshalMetadata :: "MetadataRecord \<Rightarrow> bytes"
  jsonUnmarshalAccount :: "bytes option \<Rightarrow> storageAccount"
  read_error :: "(bytes \<times> bytes) list \<Rightarrow> bytes \<Rightarrow> error option"
  iterator_error :: "(bytes \<times> bytes) list \<Rightarrow> bytes \<Rightarrow> error option"

subsection \<open>The key/value store\<close>

text \<open>
  Modelled from the spec: the \<open>ethdb\<close> key/value store and its batch are not
  in the sources. Section 6 gives the contract: get, put and has on byte keys,
  an iterator over the pairs under a prefix in key order, and a batch that
  buffers puts until its \<open>write\<close> applies all of them.
\<close>

type_synonym KeyValueStore = "(bytes, bytes) gomap"

record Batch =
  writes :: "(bytes \<times> bytes) list"

definition kv_Get :: "KeyValueStore \<Rightarrow> bytes \<Rightarrow> bytes option" where
  "kv_Get db k = map_of db k"


definition kv_Put :: "KeyValueStore \<Rightarrow> bytes \<Rightarrow> bytes \<Rightarrow> KeyValueStore" where
  "kv_Put db k v = AList.update k v db"

definition kv_NewIterator :: "KeyValueStore \<Rightarrow> bytes \<Rightarrow> (bytes \<times> bytes) list" where
  "kv_NewIterator db pre =
     sort_key fst (filter (\<lambda>(k, v). take (length pre) k = pre) db)"

definition NewBatch :: Batch where
  "NewBatch = \<lparr>writes = []\<rparr>"

definition batch_Put :: "Batch \<Rightarrow> bytes \<Rightarrow> bytes \<Rightarrow> error option \<times> Batch" where
  "batch_Put w k v = (None, w\<lparr>writes := writes w @ [(k, v)]\<rparr>)"

definition batch_Write :: "Batch \<Rightarrow> KeyValueStore \<Rightarrow> KeyValueStore" where
  "batch_Write w db = fold (\<lambda>(k, v) d. kv_Put d k v) (writes w) db"

section \<open>The raw database accessors\<close>

definition ReadCode :: "deps \<Rightarrow> KeyValueStore \<Rightarrow> Hash \<Rightarrow> bytes option" where
  "ReadCode c db hash =
     (if read_error c db (codeKey c hash) \<noteq> None then None
      else kv_Get db (codeKey c hash))"

definition WriteCode :: "deps \<Rightarrow> Batch \<Rightarrow> Hash \<Rightarrow> bytes \<Rightarrow> Batch" where
  "WriteCode c w hash code = snd (batch_Put w (codeKey c hash) code)"


definition WriteMetadataToCurrent ::
  "deps \<Rightarrow> Batch \<Rightarrow> Address \<Rightarrow> bytes \<Rightarrow> error option \<times> Batch" where
  "WriteMetadataToCurrent c w addr metadata =
     (case batch_Put w (metadataKey c addr) metadata of
        (Some e, w') \<Rightarrow> (Some FailedToStoreMetadata, w')
      | (None, w') \<Rightarrow> (None, w'))"

definition WriteStorageToCurrent ::
  "deps \<Rightarrow> Batch \<Rightarrow> Address \<Rightarrow> Hash \<Rightarrow> Hash \<Rightarrow> error option \<times> Batch" where
  "WriteStorageToCurrent c w addr key val =
     (case batch_Put w (storageKey c addr key) val of
        (Some e, w') \<Rightarrow> (Some FailedToStoreStorage, w')
      | (None, w') \<Rightarrow> (None, w'))"

definition ReadMetadata :: "deps \<Rightarrow> KeyValueStore \<Rightarrow> Address \<Rightarrow> bytes option" where
  "ReadMetadata c db addr =
     (if read_error c db (metadataKey c addr) \<noteq> None then None
      else kv_Get db (metadataKey c addr))"

text \<open>
  \<open>ReadStorage\<close> has no error result: when the iterator reports an error it
  returns the nil map, which its caller cannot tell from an address without
  rows. \<open>ReadCode\<close>, \<open>HasCode\<close> and \<open>ReadMetadata\<close> drop the error of the
  store in the same way.
\<close>

definition ReadStorage :: "deps \<Rightarrow> KeyValueStore \<Rightarrow> Address \<Rightarrow> (Hash, bytes) gomap" where
  "ReadStorage c db addr =
     (if iterator_error c db addr \<noteq> None then []
      else fold (\<lambda>(key, val) result. AList.update (BytesToHash c key) val result)
                (kv_NewIterator db addr) [])"

definition WriteMetadataToHistory :: "Batch \<Rightarrow> bytes \<Rightarrow> bytes \<Rightarrow> error option \<times> Batch" where
  "WriteMetadataToHistory w key metadata =
     (case batch_Put w key metadata of
        (Some e, w') \<Rightarrow> (Some FailedToStoreMetadata, w')
      | (None, w') \<Rightarrow> (None, w'))"

definition WriteStorageToHistory :: "Batch \<Rightarrow> bytes \<Rightarrow> Hash \<Rightarrow> error option \<times> Batch" where
  "WriteStorageToHistory w key val =
     (case batch_Put w key val of
        (Some e, w') \<Rightarrow> (Some FailedToStoreStorage, w')
      | (None, w') \<Rightarrow> (None, w'))"

section \<open>The caching database\<close>

text \<open>
  The two LRU caches are maps here. What the cache evicts is the business of
  the \<open>lru\<close> package; \<open>ContractCode\<close> is specified below for every content of
  the cache, so nothing depends on it.
\<close>

record cachingDB =
  disk :: KeyValueStore
  codeSizeCache :: "(Hash, nat) gomap"
  codeCache :: "(Hash, bytes) gomap"

definition NewDatabase :: "KeyValueStore \<Rightarrow> cachingDB" where
  "NewDatabase db = \<lparr>disk = db, codeSizeCache = [], codeCache = []\<rparr>"

definition ContractCode ::
  "deps \<Rightarrow> cachingDB \<Rightarrow> Address \<Rightarrow> Hash \<Rightarrow> (bytes option \<times> error option) \<times> cachingDB" where
  "ContractCode c db address codeHash =
     (let code = map_of (codeCache db) codeHash in
      if len code > 0 then ((code, None), db)
      else
        let code = ReadCode c (disk db) codeHash in
        if len code > 0 then
          ((code, None),
           db\<lparr>codeCache := AList.update codeHash (the code) (codeCache db),
              codeSizeCache := AList.update codeHash (len code) (codeSizeCache db)\<rparr>)
        else ((None, Some NotFound), db))"

definition ContractCodeSize ::
  "deps \<Rightarrow> cachingDB \<Rightarrow> Address \<Rightarrow> Hash \<Rightarrow> (nat \<times> error option) \<times> cachingDB" where
  "ContractCodeSize c db addr codeHash =
     (case map_of (codeSizeCache db) codeHash of
        Some cached \<Rightarrow> ((cached, None), db)
      | None \<Rightarrow>
          (case ContractCode c db addr codeHash of
             ((code, err), db') \<Rightarrow> ((len code, err), db')))"

text \<open>
  \<open>GetAccount\<close> declares \<open>var acct *types.StateAccount\<close> and never allocates
  it: \<open>acct\<close> is the nil pointer, \<open>None\<close> here, and every access through it is
  a nil pointer dereference.
\<close>

definition acct_Storage_store ::
  "StateAccount option \<Rightarrow> Hash \<Rightarrow> bytes \<Rightarrow> panic + StateAccount option" where
  "acct_Storage_store acct key val =
     (case acct of
        None \<Rightarrow> Inl NilPointerDereference
      | Some a \<Rightarrow> Inr (Some (a\<lparr>Storage := AList.update key val (Storage a)\<rparr>)))"

fun GetAccount_loop ::
  "(Hash \<times> bytes) list \<Rightarrow> StateAccount option \<Rightarrow> panic + StateAccount option" where
  "GetAccount_loop [] acct = Inr acct"
| "GetAccount_loop ((key, val) # rest) acct =
     (case acct_Storage_store acct key val of
        Inl p \<Rightarrow> Inl p
      | Inr acct' \<Rightarrow> GetAccount_loop rest acct')"

definition GetAccount ::
  "deps \<Rightarrow> cachingDB \<Rightarrow> Address \<Rightarrow> panic + (StateAccount option \<times> error option)" where
  "GetAccount c db addr =
     (let acct = None;
          temp = ReadStorage c (disk db) addr in
      if length temp = 0 then Inr (None, None)
      else
        (case GetAccount_loop (ReadStorage c (disk db) addr) acct of
           Inl p \<Rightarrow> Inl p
         | Inr None \<Rightarrow> Inl NilPointerDereference
         | Inr (Some a) \<Rightarrow>
             (let MetaDataKeyBytes = BytesToHash c (addr @ [0x6d]);
                  MetaData = map_of (Storage a) MetaDataKeyBytes;
                  sA = jsonUnmarshalAccount c MetaData
              in Inr (Some (a\<lparr>Balance := sA_Balance sA, Nonce := sA_Nonce sA,
                                CodeHash := sA_CodeHash sA\<rparr>), None))))"

fun CommitAccount_loop ::
  "deps \<Rightarrow> Address \<Rightarrow> (Hash \<times> Hash) list \<Rightarrow> Batch \<Rightarrow> error option \<times> Batch" where
  "CommitAccount_loop c addr [] w = (None, w)"
| "CommitAccount_loop c addr ((key, val) # rest) w =
     (case WriteStorageToCurrent c w addr key val of
        (Some e, w') \<Rightarrow> (Some CommitErrorStorage, w')
      | (None, w') \<Rightarrow> CommitAccount_loop c addr rest w')"

text \<open>
  \<open>CommitAccount\<close> puts the metadata and every slot into a new batch and
  returns. It never calls the batch's \<open>Write\<close>, so the batch is dropped with
  its rows and the database that the function leaves behind is the one it got.
\<close>

definition CommitAccount ::
  "deps \<Rightarrow> cachingDB \<Rightarrow> Address \<Rightarrow> bytes \<Rightarrow> Storage \<Rightarrow> error option \<times> cachingDB" where
  "CommitAccount c db addr metadata pendingStorage =
     (let stroageWriter = NewBatch in
      case WriteMetadataToCurrent c stroageWriter addr metadata of
        (Some e, w) \<Rightarrow> (Some CommitErrorMetadata, db)
      | (None, w) \<Rightarrow>
          (case CommitAccount_loop c addr pendingStorage w of
             (Some e, w') \<Rightarrow> (Some e, db)
           | (None, w') \<Rightarrow> (None, db)))"

section \<open>The history database\<close>

record HistoryDB =
  hdisk :: KeyValueStore

definition NewHistoryDB :: "KeyValueStore \<Rightarrow> HistoryDB" where
  "NewHistoryDB db = \<lparr>hdisk = db\<rparr>"

definition PutUint64 :: "64 word \<Rightarrow> bytes" where
  "PutUint64 v = map (\<lambda>i. ucast (drop_bit (8 * i) v)) [7, 6, 5, 4, 3, 2, 1, 0]"

definition PutUint32 :: "32 word \<Rightarrow> bytes" where
  "PutUint32 v = map (\<lambda>i. ucast (drop_bit (8 * i) v)) [3, 2, 1, 0]"

definition storageHistoryKey :: "64 word \<Rightarrow> int \<Rightarrow> Address \<Rightarrow> Hash \<Rightarrow> bytes" where
  "storageHistoryKey bn txId addr key =
     addr @ key @ PutUint64 bn @ PutUint32 (word_of_int txId)"

definition metadataHistoryKey :: "deps \<Rightarrow> 64 word \<Rightarrow> int \<Rightarrow> Address \<Rightarrow> bytes" where
  "metadataHistoryKey c bn txId addr =
     addr @ MetadataPrefix c @ PutUint64 bn @ PutUint32 (word_of_int txId)"

fun history_metadata_loop ::
  "deps \<Rightarrow> Address \<Rightarrow> 64 word \<Rightarrow> (int \<times> MetadataRecord) list \<Rightarrow> Batch \<Rightarrow> error option \<times> Batch" where
  "history_metadata_loop c addr BlockNum [] w = (None, w)"
| "history_metadata_loop c addr BlockNum ((txId, metadata) # rest) w =
     (case WriteMetadataToHistory w (metadataHistoryKey c BlockNum txId addr)
             (jsonMarshalMetadata c metadata) of
        (Some e, w') \<Rightarrow> (Some CommitErrorMetadata, w')
      | (None, w') \<Rightarrow> history_metadata_loop c addr BlockNum rest w')"

fun history_slots_loop ::
  "Address \<Rightarrow> 64 word \<Rightarrow> int \<Rightarrow> (Hash \<times> Hash) list \<Rightarrow> Batch \<Rightarrow> error option \<times> Batch" where
  "history_slots_loop addr BlockNum txId [] w = (None, w)"
| "history_slots_loop addr BlockNum txId ((sKey, sVal) # rest) w =
     (case WriteStorageToHistory w (storageHistoryKey BlockNum txId addr sKey) sVal of
        (Some e, w') \<Rightarrow> (Some CommitErrorStorage, w')
      | (None, w') \<Rightarrow> history_slots_loop addr BlockNum txId rest w')"

fun history_storage_loop ::
  "Address \<Rightarrow> 64 word \<Rightarrow> (int \<times> Storage) list \<Rightarrow> Batch \<Rightarrow> error option \<times> Batch" where
  "history_storage_loop addr BlockNum [] w = (None, w)"
| "history_storage_loop addr BlockNum ((txId, stroageList) # rest) w =
     (case history_slots_loop addr BlockNum txId stroageList w of
        (Some e, w') \<Rightarrow> (Some e, w')
      | (None, w') \<Rightarrow> history_storage_loop addr BlockNum rest w')"

text \<open>
  As in \<open>CommitAccount\<close>, the batch of \<open>CommitAccountToHistory\<close> is filled
  and never written.
\<close>

definition CommitAccountToHistory ::
  "deps \<Rightarrow> HistoryDB \<Rightarrow> Address \<Rightarrow> 64 word \<Rightarrow> (int \<times> Storage) list
     \<Rightarrow> (int \<times> MetadataRecord) list \<Rightarrow> error option \<times> HistoryDB" where
  "CommitAccountToHistory c hdb addr BlockNum storageRecord metadataRecord =
     (let stroageWriter = NewBatch in
      case history_metadata_loop c addr BlockNum metadataRecord stroageWriter of
        (Some e, w) \<Rightarrow> (Some e, hdb)
      | (None, w) \<Rightarrow>
          (case history_storage_loop addr BlockNum storageRecord w of
             (Some e, w') \<Rightarrow> (Some e, hdb)
           | (None, w') \<Rightarrow> (None, hdb)))"

section \<open>The journal\<close>

datatype journalEntry =
    balanceChange Address int
  | nonceChange Address "64 word"
  | storageChange Address Hash Hash
  | codeChange Address "bytes option" bytes

fun dirtied :: "journalEntry \<Rightarrow> Address option" where
  "dirtied (balanceChange account prev) = Some account"
| "dirtied (nonceChange account prev) = Some account"
| "dirtied (storageChange account key prevalue) = Some account"
| "dirtied (codeChange account prevcode prevhash) = Some account"

record journal =
  entries :: "journalEntry list"
  dirties :: "(Address, int) gomap"

definition newJournal :: journal where
  "newJournal = \<lparr>entries = [], dirties = []\<rparr>"

definition count_of :: "(Address, int) gomap \<Rightarrow> Address \<Rightarrow> int" where
  "count_of m a = (case map_of m a of None \<Rightarrow> 0 | Some n \<Rightarrow> n)"

definition journal_append :: "journal \<Rightarrow> journalEntry \<Rightarrow> journal" where
  "journal_append j entry =
     (let j1 = j\<lparr>entries := entries j @ [entry]\<rparr> in
      case dirtied entry of
        Some addr \<Rightarrow> j1\<lparr>dirties := AList.update addr (count_of (dirties j1) addr + 1) (dirties j1)\<rparr>
      | None \<Rightarrow> j1)"

section \<open>State objects and the state database\<close>

text \<open>
  A state object points back to the \<open>StateDB\<close> that owns it (journal,
  transaction index, error memo), and the \<open>StateDB\<close> holds pointers to its
  objects. The methods of a state object therefore take and return the pair of
  the owner and the object; the methods of \<open>StateDB\<close> fetch the object, run
  the method and store the object back under its address. The field
  \<open>addrHash\<close>, which no method below reads, and the access list, whose code is
  not at hand, are left out.
\<close>

record stateObject =
  address :: Address
  origin :: "StateAccount option"
  data :: StateAccount
  code :: "bytes option"
  originStorage :: Storage
  pendingStorage :: Storage
  dirtyStorage :: Storage
  storageRecord :: "(int, Storage) gomap"
  metadataRecord :: "(int, MetadataRecord) gomap option"
  dirtyCode :: bool
  suicided :: bool
  deleted :: bool

record StateDB =
  currentDB :: cachingDB
  historyDB :: HistoryDB
  stateObjects :: "(Address, stateObject) gomap"
  stateObjectsPending :: "Address list"
  stateObjectsDirty :: "Address list"
  writeSet :: "Storage option"
  journal :: journal
  thash :: Hash
  txIndex :: int
  blockNum :: "64 word"
  refund :: "64 word"
  dbErr :: "error option"

definition New :: "cachingDB \<Rightarrow> HistoryDB \<Rightarrow> StateDB" where
  "New cdb hdb =
     \<lparr>currentDB = cdb, historyDB = hdb, stateObjects = [], stateObjectsPending = [],
      stateObjectsDirty = [], writeSet = None, journal = newJournal, thash = zeroHash,
      txIndex = 0, blockNum = 0, refund = 0, dbErr = None\<rparr>"

definition setError :: "StateDB \<Rightarrow> error \<Rightarrow> StateDB" where
  "setError sdb err = (if dbErr sdb = None then sdb\<lparr>dbErr := Some err\<rparr> else sdb)"

definition Error :: "StateDB \<Rightarrow> error option" where
  "Error sdb = dbErr sdb"



text \<open>
  Modelled from the spec: \<open>types.NewEmptyStateAccount\<close> is not in the
  sources. Section 3 calls an account empty when its nonce and balance are 0,
  its code hash is the empty-code hash and it has no storage.
\<close>

definition NewEmptyStateAccount :: "deps \<Rightarrow> StateAccount" where
  "NewEmptyStateAccount c =
     \<lparr>Nonce = 0, Balance = 0, CodeHash = EmptyCodeHash c, Storage = []\<rparr>"

definition newObject :: "deps \<Rightarrow> Address \<Rightarrow> StateAccount option \<Rightarrow> stateObject" where
  "newObject c addr acct =
     \<lparr>address = addr, origin = acct,
      data = (case acct of None \<Rightarrow> NewEmptyStateAccount c | Some a \<Rightarrow> a),
      code = None, originStorage = [], pendingStorage = [], dirtyStorage = [],
      storageRecord = [], metadataRecord = Some [],
      dirtyCode = False, suicided = False, deleted = False\<rparr>"

subsection \<open>Storage reads and writes of a state object\<close>

definition GetOriginStorage :: "deps \<Rightarrow> stateObject \<Rightarrow> Address \<Rightarrow> bytes \<Rightarrow> bytes \<times> error option" where
  "GetOriginStorage c s addr key =
     (case map_of (Storage (data s)) (BytesToHash c (addr @ key)) of
        Some val \<Rightarrow> (val, None)
      | None \<Rightarrow> ([], Some KeyNotFound))"

definition stateObject_GetCommittedState ::
  "deps \<Rightarrow> StateDB \<times> stateObject \<Rightarrow> Hash \<Rightarrow> Hash \<times> StateDB \<times> stateObject" where
  "stateObject_GetCommittedState c ds key =
     (case ds of (db, s) \<Rightarrow>
      case map_of (pendingStorage s) key of
        Some val \<Rightarrow> (val, db, s)
      | None \<Rightarrow>
          (case map_of (originStorage s) key of
             Some val \<Rightarrow> (val, db, s)
           | None \<Rightarrow>
               (case GetOriginStorage c s (address s) key of
                  (val, Some err) \<Rightarrow> (zeroHash, setError db err, s)
                | (val, None) \<Rightarrow>
                    (let v = Hash_SetBytes c val in
                     (v, db, s\<lparr>originStorage := AList.update key v (originStorage s)\<rparr>)))))"

definition stateObject_GetState ::
  "deps \<Rightarrow> StateDB \<times> stateObject \<Rightarrow> Hash \<Rightarrow> Hash \<times> StateDB \<times> stateObject" where
  "stateObject_GetState c ds key =
     (case map_of (dirtyStorage (snd ds)) key of
        Some val \<Rightarrow> (val, ds)
      | None \<Rightarrow> stateObject_GetCommittedState c ds key)"

definition setState :: "stateObject \<Rightarrow> Hash \<Rightarrow> Hash \<Rightarrow> stateObject" where
  "setState s key val = s\<lparr>dirtyStorage := AList.update key val (dirtyStorage s)\<rparr>"

text \<open>
  \<open>s.storageRecord[s.db.txIndex][key] = value\<close> reads the inner map of the
  transaction index and assigns into it. No code creates an inner map, and an
  absent one reads as the nil map, on which the assignment panics.
\<close>

definition storageRecord_store ::
  "(int, Storage) gomap \<Rightarrow> int \<Rightarrow> Hash \<Rightarrow> Hash \<Rightarrow> panic + (int, Storage) gomap" where
  "storageRecord_store rec ti key val =
     (case map_of rec ti of
        None \<Rightarrow> Inl NilMapAssignment
      | Some inner \<Rightarrow> Inr (AList.update ti (AList.update key val inner) rec))"

definition stateObject_SetState ::
  "deps \<Rightarrow> StateDB \<times> stateObject \<Rightarrow> Hash \<Rightarrow> Hash \<Rightarrow> panic + StateDB \<times> stateObject" where
  "stateObject_SetState c ds key val =
     (case stateObject_GetState c ds key of (prev, db, s) \<Rightarrow>
      if prev = val then Inr (db, s)
      else
        (let db1 = db\<lparr>journal := journal_append (journal db) (storageChange (address s) key prev)\<rparr> in
         case storageRecord_store (storageRecord s) (txIndex db1) key val of
           Inl p \<Rightarrow> Inl p
         | Inr rec \<Rightarrow> Inr (db1, setState (s\<lparr>storageRecord := rec\<rparr>) key val)))"

subsection \<open>Balance, nonce and code of a state object\<close>

text \<open>
  \<open>newObject\<close> allocates the map \<open>metadataRecord\<close>; \<open>deepCopy\<close> does not,
  and leaves the nil map (\<open>None\<close>). Reading the nil map finds no entry;
  assigning into it panics. (\<open>storageRecord\<close>, which \<open>deepCopy\<close> leaves nil
  too, is only read and traversed, so there the nil map is the empty one.)
\<close>

definition metadataRecord_lookup ::
  "(int, MetadataRecord) gomap option \<Rightarrow> int \<Rightarrow> MetadataRecord option" where
  "metadataRecord_lookup rec ti = (case rec of None \<Rightarrow> None | Some m \<Rightarrow> map_of m ti)"

definition metadataRecord_store ::
  "(int, MetadataRecord) gomap option \<Rightarrow> int \<Rightarrow> MetadataRecord
     \<Rightarrow> panic + (int, MetadataRecord) gomap option" where
  "metadataRecord_store rec ti temp =
     (case rec of
        None \<Rightarrow> Inl NilMapAssignment
      | Some m \<Rightarrow> Inr (Some (AList.update ti temp m)))"

definition setBalance :: "stateObject \<Rightarrow> int \<Rightarrow> stateObject" where
  "setBalance s amount = s\<lparr>data := (data s)\<lparr>Balance := amount\<rparr>\<rparr>"

definition stateObject_SetBalance ::
  "StateDB \<times> stateObject \<Rightarrow> int \<Rightarrow> panic + StateDB \<times> stateObject" where
  "stateObject_SetBalance ds amount =
     (case ds of (db, s) \<Rightarrow>
      let db1 = db\<lparr>journal := journal_append (journal db)
                                  (balanceChange (address s) (Balance (data s)))\<rparr>;
          temp = (case metadataRecord_lookup (metadataRecord s) (txIndex db1) of
                    Some r \<Rightarrow> \<lparr>mr_Nonce = mr_Nonce r, mr_Balance = amount,
                               mr_CodeHash = mr_CodeHash r, mr_Code = mr_Code r\<rparr>
                  | None \<Rightarrow> \<lparr>mr_Nonce = 0, mr_Balance = amount,
                             mr_CodeHash = [], mr_Code = []\<rparr>)
      in case metadataRecord_store (metadataRecord s) (txIndex db1) temp of
           Inl p \<Rightarrow> Inl p
         | Inr rec \<Rightarrow> Inr (db1, setBalance (s\<lparr>metadataRecord := rec\<rparr>) amount))"

definition stateObject_AddBalance ::
  "StateDB \<times> stateObject \<Rightarrow> int \<Rightarrow> panic + StateDB \<times> stateObject" where
  "stateObject_AddBalance ds amount =
     (if sgn amount = 0 then Inr ds
      else stateObject_SetBalance ds (Balance (data (snd ds)) + amount))"

definition stateObject_SubBalance ::
  "StateDB \<times> stateObject \<Rightarrow> int \<Rightarrow> panic + StateDB \<times> stateObject" where
  "stateObject_SubBalance ds amount =
     (if sgn amount = 0 then Inr ds
      else stateObject_SetBalance ds (Balance (data (snd ds)) - amount))"



definition stateObject_CodeHash :: "stateObject \<Rightarrow> bytes" where
  "stateObject_CodeHash s = CodeHash (data s)"

definition stateObject_Code :: "deps \<Rightarrow> StateDB \<times> stateObject \<Rightarrow> bytes option \<times> StateDB \<times> stateObject" where
  "stateObject_Code c ds =
     (case ds of (db, s) \<Rightarrow>
      if code s \<noteq> None then (code s, db, s)
      else
        (case ContractCode c (currentDB db) (address s) (BytesToHash c (stateObject_CodeHash s)) of
           ((cd, err), cdb) \<Rightarrow>
             (let db1 = db\<lparr>currentDB := cdb\<rparr>;
                  db2 = (case err of
                           Some e \<Rightarrow> setError db1 (CantLoadCodeHash (stateObject_CodeHash s) e)
                         | None \<Rightarrow> db1)
              in (cd, db2, s\<lparr>code := cd\<rparr>))))"



subsection \<open>Finalise and commit of a state object\<close>

definition finalise :: "stateObject \<Rightarrow> stateObject" where
  "finalise s =
     (let s1 = s\<lparr>pendingStorage :=
                   fold (\<lambda>(key, val) p. AList.update key val p) (dirtyStorage s) (pendingStorage s)\<rparr>
      in if length (dirtyStorage s1) > 0 then s1\<lparr>dirtyStorage := []\<rparr> else s1)"

text \<open>
  \<open>New\<close> leaves the field \<open>writeSet\<close> of the \<open>StateDB\<close> unset, the nil map
  (\<open>None\<close>), and no code ever allocates it: the first assignment into it panics.
\<close>

fun writeSet_loop :: "(Hash \<times> Hash) list \<Rightarrow> Storage option \<Rightarrow> panic + Storage option" where
  "writeSet_loop [] ws = Inr ws"
| "writeSet_loop ((key, val) # rest) ws =
     (case ws of
        None \<Rightarrow> Inl NilMapAssignment
      | Some m \<Rightarrow> writeSet_loop rest (Some (AList.update key val m)))"

definition stateObject_commit ::
  "deps \<Rightarrow> StateDB \<times> stateObject \<Rightarrow> panic + error option \<times> StateDB" where
  "stateObject_commit c ds =
     (case ds of (db, s) \<Rightarrow>
      let sA = \<lparr>sA_Nonce = Nonce (data s), sA_Balance = Balance (data s),
                sA_CodeHash = CodeHash (data s)\<rparr> in
      case jsonMarshalAccount c sA of
        None \<Rightarrow> Inr (Some ErrorEncodingJson, db)
      | Some metaData \<Rightarrow>
          (case writeSet_loop (pendingStorage s) (writeSet db) of
             Inl p \<Rightarrow> Inl p
           | Inr ws \<Rightarrow>
               (case CommitAccount c (currentDB db) (address s) metaData (pendingStorage s) of
                  (Some e, cdb) \<Rightarrow>
                    Inr (Some CommitErrorStateObject, db\<lparr>writeSet := ws, currentDB := cdb\<rparr>)
                | (None, cdb) \<Rightarrow> Inr (None, db\<lparr>writeSet := ws, currentDB := cdb\<rparr>))))"

definition commitHistory ::
  "deps \<Rightarrow> stateObject \<Rightarrow> 64 word \<Rightarrow> HistoryDB \<Rightarrow> error option \<times> HistoryDB" where
  "commitHistory c s BlockNum hdb =
     (case CommitAccountToHistory c hdb (address s) BlockNum (storageRecord s)
             (case metadataRecord s of None \<Rightarrow> [] | Some m \<Rightarrow> m) of
        (Some e, hdb') \<Rightarrow> (Some CommitErrorStateObject, hdb')
      | (None, hdb') \<Rightarrow> (None, hdb'))"

subsection \<open>Looking up and creating state objects\<close>

definition setStateObject :: "StateDB \<Rightarrow> stateObject \<Rightarrow> StateDB" where
  "setStateObject sdb object =
     sdb\<lparr>stateObjects := AList.update (address object) object (stateObjects sdb)\<rparr>"

definition getDeletedStateObject ::
  "deps \<Rightarrow> StateDB \<Rightarrow> Address \<Rightarrow> panic + stateObject option \<times> StateDB" where
  "getDeletedStateObject c sdb addr =
     (case map_of (stateObjects sdb) addr of
        Some obj \<Rightarrow> Inr (Some obj, sdb)
      | None \<Rightarrow>
          (case GetAccount c (currentDB sdb) addr of
             Inl p \<Rightarrow> Inl p
           | Inr (acct, Some err) \<Rightarrow>
               Inr (None, setError sdb (GetDeleteStateObjectError addr err))
           | Inr (None, None) \<Rightarrow> Inr (None, sdb)
           | Inr (Some acct, None) \<Rightarrow>
               (let obj = newObject c addr (Some acct) in
                Inr (Some obj, setStateObject sdb obj))))"

definition getStateObject ::
  "deps \<Rightarrow> StateDB \<Rightarrow> Address \<Rightarrow> panic + stateObject option \<times> StateDB" where
  "getStateObject c sdb addr =
     (case getDeletedStateObject c sdb addr of
        Inl p \<Rightarrow> Inl p
      | Inr (Some obj, sdb') \<Rightarrow> if \<not> deleted obj then Inr (Some obj, sdb') else Inr (None, sdb')
      | Inr (None, sdb') \<Rightarrow> Inr (None, sdb'))"

definition createObject ::
  "deps \<Rightarrow> StateDB \<Rightarrow> Address \<Rightarrow> panic + (stateObject \<times> stateObject option) \<times> StateDB" where
  "createObject c sdb addr =
     (case getDeletedStateObject c sdb addr of
        Inl p \<Rightarrow> Inl p
      | Inr (prev, sdb1) \<Rightarrow>
          (let newobj = newObject c addr None;
               sdb2 = setStateObject sdb1 newobj
           in case prev of
                Some pr \<Rightarrow>
                  if \<not> deleted pr then Inr ((newobj, Some pr), sdb2)
                  else Inr ((newobj, None), sdb2)
              | None \<Rightarrow> Inr ((newobj, None), sdb2)))"

definition GetOrNewStateObject ::
  "deps \<Rightarrow> StateDB \<Rightarrow> Address \<Rightarrow> panic + stateObject \<times> StateDB" where
  "GetOrNewStateObject c sdb addr =
     (case getStateObject c sdb addr of
        Inl p \<Rightarrow> Inl p
      | Inr (Some obj, sdb1) \<Rightarrow> Inr (obj, sdb1)
      | Inr (None, sdb1) \<Rightarrow>
          (case createObject c sdb1 addr of
             Inl p \<Rightarrow> Inl p
           | Inr ((newobj, prev), sdb2) \<Rightarrow> Inr (newobj, sdb2)))"

definition storeObject :: "StateDB \<Rightarrow> Address \<Rightarrow> stateObject \<Rightarrow> StateDB" where
  "storeObject sdb addr obj = sdb\<lparr>stateObjects := AList.update addr obj (stateObjects sdb)\<rparr>"

subsection \<open>Reads and writes through the state database\<close>

definition StateDB_GetState :: "deps \<Rightarrow> StateDB \<Rightarrow> Address \<Rightarrow> Hash \<Rightarrow> panic + Hash \<times> StateDB" where
  "StateDB_GetState c sdb addr key =
     (case getStateObject c sdb addr of
        Inl p \<Rightarrow> Inl p
      | Inr (Some obj, sdb1) \<Rightarrow>
          (case stateObject_GetState c (sdb1, obj) key of
             (v, sdb2, obj') \<Rightarrow> Inr (v, storeObject sdb2 addr obj'))
      | Inr (None, sdb1) \<Rightarrow> Inr (zeroHash, sdb1))"

definition StateDB_GetCommittedState ::
  "deps \<Rightarrow> StateDB \<Rightarrow> Address \<Rightarrow> Hash \<Rightarrow> panic + Hash \<times> StateDB" where
  "StateDB_GetCommittedState c sdb addr key =
     (case getStateObject c sdb addr of
        Inl p \<Rightarrow> Inl p
      | Inr (Some obj, sdb1) \<Rightarrow>
          (case stateObject_GetCommittedState c (sdb1, obj) key of
             (v, sdb2, obj') \<Rightarrow> Inr (v, storeObject sdb2 addr obj'))
      | Inr (None, sdb1) \<Rightarrow> Inr (zeroHash, sdb1))"

definition StateDB_SetState ::
  "deps \<Rightarrow> StateDB \<Rightarrow> Address \<Rightarrow> Hash \<Rightarrow> Hash \<Rightarrow> panic + StateDB" where
  "StateDB_SetState c sdb addr key val =
     (case GetOrNewStateObject c sdb addr of
        Inl p \<Rightarrow> Inl p
      | Inr (obj, sdb1) \<Rightarrow>
          (case stateObject_SetState c (sdb1, obj) key val of
             Inl p \<Rightarrow> Inl p
           | Inr (sdb2, obj') \<Rightarrow> Inr (storeObject sdb2 addr obj')))"

definition StateDB_AddBalance :: "deps \<Rightarrow> StateDB \<Rightarrow> Address \<Rightarrow> int \<Rightarrow> panic + StateDB" where
  "StateDB_AddBalance c sdb addr amount =
     (case GetOrNewStateObject c sdb addr of
        Inl p \<Rightarrow> Inl p
      | Inr (obj, sdb1) \<Rightarrow>
          (case stateObject_AddBalance (sdb1, obj) amount of
             Inl p \<Rightarrow> Inl p
           | Inr (sdb2, obj') \<Rightarrow> Inr (storeObject sdb2 addr obj')))"

definition StateDB_SubBalance :: "deps \<Rightarrow> StateDB \<Rightarrow> Address \<Rightarrow> int \<Rightarrow> panic + StateDB" where
  "StateDB_SubBalance c sdb addr amount =
     (case GetOrNewStateObject c sdb addr of
        Inl p \<Rightarrow> Inl p
      | Inr (obj, sdb1) \<Rightarrow>
          (case stateObject_SubBalance (sdb1, obj) amount of
             Inl p \<Rightarrow> Inl p
           | Inr (sdb2, obj') \<Rightarrow> Inr (storeObject sdb2 addr obj')))"

definition StateDB_SetBalance :: "deps \<Rightarrow> StateDB \<Rightarrow> Address \<Rightarrow> int \<Rightarrow> panic + StateDB" where
  "StateDB_SetBalance c sdb addr amount =
     (case GetOrNewStateObject c sdb addr of
        Inl p \<Rightarrow> Inl p
      | Inr (obj, sdb1) \<Rightarrow>
          (case stateObject_SetBalance (sdb1, obj) amount of
             Inl p \<Rightarrow> Inl p
           | Inr (sdb2, obj') \<Rightarrow> Inr (storeObject sdb2 addr obj')))"

definition StateDB_GetBalance :: "deps \<Rightarrow> StateDB \<Rightarrow> Address \<Rightarrow> panic + int \<times> StateDB" where
  "StateDB_GetBalance c sdb addr =
     (case getStateObject c sdb addr of
        Inl p \<Rightarrow> Inl p
      | Inr (Some obj, sdb1) \<Rightarrow> Inr (Balance (data obj), sdb1)
      | Inr (None, sdb1) \<Rightarrow> Inr (0, sdb1))"




definition StateDB_GetCode :: "deps \<Rightarrow> StateDB \<Rightarrow> Address \<Rightarrow> panic + bytes option \<times> StateDB" where
  "StateDB_GetCode c sdb addr =
     (case getStateObject c sdb addr of
        Inl p \<Rightarrow> Inl p
      | Inr (Some obj, sdb1) \<Rightarrow>
          (case stateObject_Code c (sdb1, obj) of
             (cd, sdb2, obj') \<Rightarrow> Inr (cd, storeObject sdb2 addr obj'))
      | Inr (None, sdb1) \<Rightarrow> Inr (None, sdb1))"


subsection \<open>Finalise and commit of the state database\<close>

definition clearJournalAndRefund :: "StateDB \<Rightarrow> StateDB" where
  "clearJournalAndRefund sdb =
     (if length (entries (journal sdb)) > 0 then sdb\<lparr>journal := newJournal\<rparr> else sdb)"

definition Finalise_step :: "Address \<Rightarrow> StateDB \<Rightarrow> StateDB" where
  "Finalise_step addr sdb =
     (case map_of (stateObjects sdb) addr of
        None \<Rightarrow> sdb
      | Some obj \<Rightarrow>
          (storeObject sdb addr (finalise obj))
            \<lparr>stateObjectsPending := List.insert addr (stateObjectsPending sdb),
             stateObjectsDirty := List.insert addr (stateObjectsDirty sdb)\<rparr>)"

definition Finalise :: "StateDB \<Rightarrow> StateDB" where
  "Finalise sdb =
     clearJournalAndRefund (fold Finalise_step (map fst (dirties (journal sdb))) sdb)"

fun Commit_loop ::
  "deps \<Rightarrow> Address list \<Rightarrow> StateDB \<times> Batch \<Rightarrow> panic + error option \<times> StateDB \<times> Batch" where
  "Commit_loop c [] (sdb, codeWriter) = Inr (None, sdb, codeWriter)"
| "Commit_loop c (addr # rest) (sdb, codeWriter) =
     (case map_of (stateObjects sdb) addr of
        None \<Rightarrow> Inl NilPointerDereference
      | Some obj \<Rightarrow>
          if deleted obj then Commit_loop c rest (sdb, codeWriter)
          else
            (let wo = (if code obj \<noteq> None \<and> dirtyCode obj
                       then (WriteCode c codeWriter (BytesToHash c (stateObject_CodeHash obj))
                               (the (code obj)),
                             obj\<lparr>dirtyCode := False\<rparr>)
                       else (codeWriter, obj));
                 sdb1 = storeObject sdb addr (snd wo)
             in case stateObject_commit c (sdb1, snd wo) of
                  Inl p \<Rightarrow> Inl p
                | Inr (Some e, sdb2) \<Rightarrow> Inr (Some e, sdb2, fst wo)
                | Inr (None, sdb2) \<Rightarrow>
                    (case commitHistory c (snd wo) (blockNum sdb2) (historyDB sdb2) of
                       (Some e, hdb) \<Rightarrow> Inr (Some e, sdb2\<lparr>historyDB := hdb\<rparr>, fst wo)
                     | (None, hdb) \<Rightarrow>
                         Commit_loop c rest (sdb2\<lparr>historyDB := hdb\<rparr>, fst wo))))"

text \<open>
  The bytes that \<open>Commit\<close> hashes: the values of the write-set, one after the
  other, in the order in which the \<open>range\<close> loop meets them.
\<close>

definition Commit_hashBytes :: "StateDB \<Rightarrow> bytes" where
  "Commit_hashBytes sdb =
     concat (map snd (case writeSet sdb of None \<Rightarrow> [] | Some m \<Rightarrow> m))"

definition Commit :: "deps \<Rightarrow> StateDB \<Rightarrow> panic + (Hash \<times> error option) \<times> StateDB" where
  "Commit c sdb =
     (if dbErr sdb \<noteq> None then Inr ((zeroHash, Some CommitAborted), sdb)
      else
        (let codeWriter = NewBatch;
             sdb1 = Finalise sdb
         in case Commit_loop c (stateObjectsDirty sdb1) (sdb1, codeWriter) of
              Inl p \<Rightarrow> Inl p
            | Inr (Some e, sdb2, w) \<Rightarrow> Inr ((zeroHash, Some e), sdb2)
            | Inr (None, sdb2, w) \<Rightarrow>
                Inr ((Keccak256Hash c (Commit_hashBytes sdb2), None), sdb2)))"

subsection \<open>Copying the state database\<close>

text \<open>
  \<open>deepCopy\<close> copies the three storage layers and the flags and leaves the
  two per-transaction records unset. \<open>Copy\<close> builds a state database with a
  new journal and copies into it the objects that the journal, the pending set
  and the dirty set name; an address of the two sets without an object is a
  nil receiver.
\<close>

definition deepCopy :: "stateObject \<Rightarrow> stateObject" where
  "deepCopy s =
     \<lparr>address = address s, origin = origin s, data = data s, code = code s,
      originStorage = originStorage s, pendingStorage = pendingStorage s,
      dirtyStorage = dirtyStorage s, storageRecord = [], metadataRecord = None,
      dirtyCode = dirtyCode s, suicided = suicided s, deleted = deleted s\<rparr>"

definition Copy_journal_step :: "StateDB \<Rightarrow> Address \<Rightarrow> StateDB \<Rightarrow> StateDB" where
  "Copy_journal_step sdb addr state =
     (case map_of (stateObjects sdb) addr of
        Some object \<Rightarrow>
          state\<lparr>stateObjects := AList.update addr (deepCopy object) (stateObjects state),
                stateObjectsDirty := List.insert addr (stateObjectsDirty state),
                stateObjectsPending := List.insert addr (stateObjectsPending state)\<rparr>
      | None \<Rightarrow> state)"

fun Copy_pending_loop :: "StateDB \<Rightarrow> Address list \<Rightarrow> StateDB \<Rightarrow> panic + StateDB" where
  "Copy_pending_loop sdb [] state = Inr state"
| "Copy_pending_loop sdb (addr # rest) state =
     (case map_of (stateObjects state) addr of
        Some object \<Rightarrow>
          Copy_pending_loop sdb rest
            (state\<lparr>stateObjectsPending := List.insert addr (stateObjectsPending state)\<rparr>)
      | None \<Rightarrow>
          (case map_of (stateObjects sdb) addr of
             None \<Rightarrow> Inl NilPointerDereference
           | Some object \<Rightarrow>
               Copy_pending_loop sdb rest
                 (state\<lparr>stateObjects := AList.update addr (deepCopy object) (stateObjects state),
                       stateObjectsPending := List.insert addr (stateObjectsPending state)\<rparr>)))"

fun Copy_dirty_loop :: "StateDB \<Rightarrow> Address list \<Rightarrow> StateDB \<Rightarrow> panic + StateDB" where
  "Copy_dirty_loop sdb [] state = Inr state"
| "Copy_dirty_loop sdb (addr # rest) state =
     (case map_of (stateObjects state) addr of
        Some object \<Rightarrow>
          Copy_dirty_loop sdb rest
            (state\<lparr>stateObjectsDirty := List.insert addr (stateObjectsDirty state)\<rparr>)
      | None \<Rightarrow>
          (case map_of (stateObjects sdb) addr of
             None \<Rightarrow> Inl NilPointerDereference
           | Some object \<Rightarrow>
               Copy_dirty_loop sdb rest
                 (state\<lparr>stateObjects := AList.update addr (deepCopy object) (stateObjects state),
                       stateObjectsDirty := List.insert addr (stateObjectsDirty state)\<rparr>)))"

definition Copy :: "StateDB \<Rightarrow> panic + StateDB" where
  "Copy sdb =
     (let state = \<lparr>currentDB = currentDB sdb, historyDB = historyDB sdb, stateObjects = [],
                   stateObjectsPending = [], stateObjectsDirty = [], writeSet = None,
                   journal = newJournal, thash = zeroHash, txIndex = 0, blockNum = 0,
                   refund = refund sdb, dbErr = None\<rparr>;
          state1 = fold (Copy_journal_step sdb) (map fst (dirties (journal sdb))) state
      in case Copy_pending_loop sdb (stateObjectsPending sdb) state1 of
           Inl p \<Rightarrow> Inl p
         | Inr state2 \<Rightarrow> Copy_dirty_loop sdb (stateObjectsDirty sdb) state2)"

subsection \<open>Snapshots\<close>

text \<open>
  Both bodies are commented out in the source: \<open>Snapshot\<close> returns 0 and
  \<open>RevertToSnapshot\<close> returns without touching the state.
\<close>

definition Snapshot :: "StateDB \<Rightarrow> int \<times> StateDB" where
  "Snapshot s = (0, s)"

definition RevertToSnapshot :: "StateDB \<Rightarrow> int \<Rightarrow> StateDB" where
  "RevertToSnapshot s revid = s"

subsection \<open>Sequences of operations\<close>





section \<open>The transaction pool\<close>

text \<open>
  Modelled from the spec: the pool itself (\<open>LegacyPool\<close> with its per-account
  lists, its lookup \<open>all\<close> and its price heap) is not in the sources; only
  its test file is, whose \<open>validatePoolInternals\<close> checks the counts. The
  definitions below follow sections 3 and 4.6 of the spec. The pending and the
  queued transactions are one list each, the list of an account being the
  entries of its sender; \<open>all\<close> holds every transaction of the pool with its
  local flag; the price heap holds the remote ones in its two halves. Which
  transaction a truncation or an eviction by age picks is left open: such an
  exit is the removal of the transactions that satisfy a predicate.
\<close>

record Transaction =
  tx_hash :: Hash
  tx_sender :: Address
  tx_nonce :: nat
  tx_gas :: nat
  tx_gasPrice :: int
  tx_value :: int
  tx_size :: nat

record ChainView =
  state_nonce :: "Address \<Rightarrow> nat"
  state_balance :: "Address \<Rightarrow> int"
  block_gas_limit :: nat

record PoolConfig =
  price_bump :: int
  global_slots :: nat
  global_queue :: nat
  tx_max_size :: nat
  slot_size :: nat
  intrinsic_gas :: "Transaction \<Rightarrow> nat"

record TxPool =
  pool_pending :: "Transaction list"
  pool_queue :: "Transaction list"
  pool_all :: "(Transaction \<times> bool) list"
  priced_urgent :: "Transaction list"
  priced_floating :: "Transaction list"
  pool_locals :: "Address list"
  gas_tip :: int

datatype pool_error =
    AlreadyKnown | OversizedData | NegativeValue | GasLimit | IntrinsicGas
  | NonceTooLow | InsufficientFunds | Underpriced | ReplaceUnderpriced
  | FutureReplacePending

definition emptyPool :: TxPool where
  "emptyPool =
     \<lparr>pool_pending = [], pool_queue = [], pool_all = [], priced_urgent = [],
      priced_floating = [], pool_locals = [], gas_tip = 0\<rparr>"

definition all_Count :: "TxPool \<Rightarrow> nat" where
  "all_Count P = length (pool_all P)"

definition all_RemoteCount :: "TxPool \<Rightarrow> nat" where
  "all_RemoteCount P = length (filter (\<lambda>(t, local). \<not> local) (pool_all P))"

definition pool_stats :: "TxPool \<Rightarrow> nat \<times> nat" where
  "pool_stats P = (length (pool_pending P), length (pool_queue P))"

definition tx_cost :: "Transaction \<Rightarrow> int" where
  "tx_cost t = int (tx_gas t) * tx_gasPrice t + tx_value t"

definition tx_slots :: "PoolConfig \<Rightarrow> Transaction \<Rightarrow> nat" where
  "tx_slots cfg t = (tx_size t + slot_size cfg - 1) div slot_size cfg"

definition all_Slots :: "PoolConfig \<Rightarrow> TxPool \<Rightarrow> nat" where
  "all_Slots cfg P = sum_list (map (\<lambda>(t, local). tx_slots cfg t) (pool_all P))"

definition known :: "TxPool \<Rightarrow> Hash \<Rightarrow> bool" where
  "known P h = (find (\<lambda>(t, local). tx_hash t = h) (pool_all P) \<noteq> None)"

definition is_remote :: "TxPool \<Rightarrow> Transaction \<Rightarrow> bool" where
  "is_remote P t = (find (\<lambda>(u, local). u = t \<and> \<not> local) (pool_all P) \<noteq> None)"

subsection \<open>Entering, leaving and moving\<close>

definition pool_insert :: "Transaction \<Rightarrow> bool \<Rightarrow> bool \<Rightarrow> TxPool \<Rightarrow> TxPool" where
  "pool_insert t local to_pending P =
     (let P1 = (if to_pending then P\<lparr>pool_pending := pool_pending P @ [t]\<rparr>
                else P\<lparr>pool_queue := pool_queue P @ [t]\<rparr>);
          P2 = P1\<lparr>pool_all := pool_all P1 @ [(t, local)]\<rparr>
      in if local
         then P2\<lparr>pool_locals := List.insert (tx_sender t) (pool_locals P2)\<rparr>
         else P2\<lparr>priced_urgent := priced_urgent P2 @ [t]\<rparr>)"

definition pool_drop :: "(Transaction \<Rightarrow> bool) \<Rightarrow> TxPool \<Rightarrow> TxPool" where
  "pool_drop p P =
     P\<lparr>pool_pending := filter (\<lambda>t. \<not> p t) (pool_pending P),
       pool_queue := filter (\<lambda>t. \<not> p t) (pool_queue P),
       pool_all := filter (\<lambda>(t, local). \<not> p t) (pool_all P),
       priced_urgent := filter (\<lambda>t. \<not> p t) (priced_urgent P),
       priced_floating := filter (\<lambda>t. \<not> p t) (priced_floating P)\<rparr>"

definition pool_promote :: "(Transaction \<Rightarrow> bool) \<Rightarrow> TxPool \<Rightarrow> TxPool" where
  "pool_promote p P =
     P\<lparr>pool_pending := pool_pending P @ filter p (pool_queue P),
       pool_queue := filter (\<lambda>t. \<not> p t) (pool_queue P)\<rparr>"

definition pool_demote :: "(Transaction \<Rightarrow> bool) \<Rightarrow> TxPool \<Rightarrow> TxPool" where
  "pool_demote p P =
     P\<lparr>pool_queue := pool_queue P @ filter p (pool_pending P),
       pool_pending := filter (\<lambda>t. \<not> p t) (pool_pending P)\<rparr>"

definition removeTx :: "Hash \<Rightarrow> TxPool \<Rightarrow> TxPool" where
  "removeTx h P = pool_drop (\<lambda>t. tx_hash t = h) P"

subsection \<open>Nonces of an account\<close>

definition pending_of :: "TxPool \<Rightarrow> Address \<Rightarrow> Transaction list" where
  "pending_of P a = filter (\<lambda>t. tx_sender t = a) (pool_pending P)"

definition queue_of :: "TxPool \<Rightarrow> Address \<Rightarrow> Transaction list" where
  "queue_of P a = filter (\<lambda>t. tx_sender t = a) (pool_queue P)"

definition pending_nonce :: "ChainView \<Rightarrow> TxPool \<Rightarrow> Address \<Rightarrow> nat" where
  "pending_nonce view P a =
     foldr (\<lambda>t m. max (Suc (tx_nonce t)) m) (pending_of P a) (state_nonce view a)"

fun run_from :: "nat \<Rightarrow> nat \<Rightarrow> Transaction list \<Rightarrow> Transaction list" where
  "run_from 0 n ts = []"
| "run_from (Suc k) n ts =
     (case find (\<lambda>t. tx_nonce t = n) ts of
        None \<Rightarrow> []
      | Some t \<Rightarrow> t # run_from k (Suc n) ts)"

definition contiguous :: "nat \<Rightarrow> Transaction list \<Rightarrow> Transaction list" where
  "contiguous n ts = run_from (length ts) n ts"

subsection \<open>Admission\<close>

definition validateTx ::
  "PoolConfig \<Rightarrow> ChainView \<Rightarrow> TxPool \<Rightarrow> Transaction \<Rightarrow> bool \<Rightarrow> pool_error option" where
  "validateTx cfg view P t local =
     (if tx_size t > tx_max_size cfg then Some OversizedData
      else if tx_value t < 0 then Some NegativeValue
      else if tx_gas t > block_gas_limit view then Some GasLimit
      else if tx_gas t < intrinsic_gas cfg t then Some IntrinsicGas
      else if tx_nonce t < state_nonce view (tx_sender t) then Some NonceTooLow
      else if state_balance view (tx_sender t) < tx_cost t then Some InsufficientFunds
      else if tx_gasPrice t < gas_tip P \<and> \<not> local then Some Underpriced
      else None)"

definition cheaper :: "Transaction \<Rightarrow> Transaction option \<Rightarrow> Transaction option" where
  "cheaper t best =
     (case best of
        None \<Rightarrow> Some t
      | Some b \<Rightarrow> if tx_gasPrice t < tx_gasPrice b then Some t else Some b)"

definition cheapest_evictable :: "TxPool \<Rightarrow> Transaction option" where
  "cheapest_evictable P =
     foldr cheaper
       (filter (\<lambda>t. tx_sender t \<notin> set (pool_locals P)) (priced_urgent P @ priced_floating P))
       None"

definition replace_or_route ::
  "PoolConfig \<Rightarrow> ChainView \<Rightarrow> Transaction \<Rightarrow> bool \<Rightarrow> TxPool \<Rightarrow> pool_error option \<times> TxPool" where
  "replace_or_route cfg view t local P =
     (case find (\<lambda>u. tx_sender u = tx_sender t \<and> tx_nonce u = tx_nonce t)
             (pool_pending P @ pool_queue P) of
        Some old \<Rightarrow>
          if tx_gasPrice t < (tx_gasPrice old * (100 + price_bump cfg)) div 100
          then (Some ReplaceUnderpriced, P)
          else (None, pool_insert t local (old \<in> set (pool_pending P))
                        (pool_drop (\<lambda>u. tx_hash u = tx_hash old) P))
      | None \<Rightarrow>
          (None, pool_insert t local
                   (tx_nonce t = pending_nonce view P (tx_sender t)) P))"

definition pool_add ::
  "PoolConfig \<Rightarrow> ChainView \<Rightarrow> Transaction \<Rightarrow> bool \<Rightarrow> TxPool \<Rightarrow> pool_error option \<times> TxPool" where
  "pool_add cfg view t local P =
     (if known P (tx_hash t) then (Some AlreadyKnown, P)
      else
        (case validateTx cfg view P t local of
           Some e \<Rightarrow> (Some e, P)
         | None \<Rightarrow>
             if all_Slots cfg P + tx_slots cfg t > global_slots cfg + global_queue cfg
             then
               (case cheapest_evictable P of
                  None \<Rightarrow> replace_or_route cfg view t local P
                | Some c \<Rightarrow>
                    if tx_gasPrice t < tx_gasPrice c then (Some Underpriced, P)
                    else if tx_nonce t > pending_nonce view P (tx_sender t)
                            \<and> c \<in> set (pool_pending P)
                    then (Some FutureReplacePending, P)
                    else replace_or_route cfg view t local
                           (pool_drop (\<lambda>u. tx_hash u = tx_hash c) P))
             else replace_or_route cfg view t local P))"

subsection \<open>Promotion, demotion, repricing, reset\<close>

definition promote_account :: "ChainView \<Rightarrow> Address \<Rightarrow> TxPool \<Rightarrow> TxPool" where
  "promote_account view a P =
     (let P1 = pool_drop
                 (\<lambda>t. t \<in> set (queue_of P a) \<and>
                      (state_balance view a < tx_cost t \<or> block_gas_limit view < tx_gas t)) P;
          ready = contiguous (pending_nonce view P1 a)
                    (filter (\<lambda>t. state_nonce view a \<le> tx_nonce t) (queue_of P1 a))
      in pool_promote (\<lambda>t. t \<in> set ready) P1)"

definition promoteExecutables :: "ChainView \<Rightarrow> Address list option \<Rightarrow> TxPool \<Rightarrow> TxPool" where
  "promoteExecutables view accounts P =
     fold (promote_account view)
       (case accounts of
          None \<Rightarrow> remdups (map tx_sender (pool_queue P))
        | Some as \<Rightarrow> as) P"

definition demote_account :: "ChainView \<Rightarrow> Address \<Rightarrow> TxPool \<Rightarrow> TxPool" where
  "demote_account view a P =
     (let P1 = pool_drop
                 (\<lambda>t. t \<in> set (pending_of P a) \<and>
                      (tx_nonce t < state_nonce view a \<or> state_balance view a < tx_cost t)) P;
          keep = contiguous (state_nonce view a) (pending_of P1 a)
      in pool_demote (\<lambda>t. tx_sender t = a \<and> t \<notin> set keep) P1)"

definition demoteUnexecutables :: "ChainView \<Rightarrow> TxPool \<Rightarrow> TxPool" where
  "demoteUnexecutables view P =
     fold (demote_account view) (remdups (map tx_sender (pool_pending P))) P"

definition demote_gapped :: "ChainView \<Rightarrow> Address \<Rightarrow> TxPool \<Rightarrow> TxPool" where
  "demote_gapped view a P =
     pool_demote
       (\<lambda>t. tx_sender t = a \<and> t \<notin> set (contiguous (state_nonce view a) (pending_of P a))) P"

definition SetGasTip :: "ChainView \<Rightarrow> int \<Rightarrow> TxPool \<Rightarrow> TxPool" where
  "SetGasTip view tip P =
     (let P1 = P\<lparr>gas_tip := tip\<rparr>;
          P2 = pool_drop (\<lambda>t. is_remote P1 t \<and> tx_gasPrice t < tip) P1
      in fold (demote_gapped view) (remdups (map tx_sender (pool_pending P2))) P2)"

definition pool_reset ::
  "PoolConfig \<Rightarrow> ChainView \<Rightarrow> Transaction list \<Rightarrow> TxPool \<Rightarrow> TxPool" where
  "pool_reset cfg view reinject P =
     promoteExecutables view None
       (demoteUnexecutables view
          (fold (\<lambda>t Q. snd (pool_add cfg view t False Q)) reinject P))"

text \<open>
  One step of the pool's life, with the view of the chain state it runs
  against, and a run of steps from the empty pool. A pool at rest is the
  result of a run.
\<close>

datatype pool_op =
    Add Transaction bool
  | PromoteExecutables "Address list option"
  | DemoteUnexecutables
  | SetTip int
  | Reset "Transaction list"
  | RemoveTx Hash
  | Evict "Transaction \<Rightarrow> bool"

fun pool_step :: "PoolConfig \<Rightarrow> ChainView \<times> pool_op \<Rightarrow> TxPool \<Rightarrow> TxPool" where
  "pool_step cfg (view, Add t local) P = snd (pool_add cfg view t local P)"
| "pool_step cfg (view, PromoteExecutables accounts) P = promoteExecutables view accounts P"
| "pool_step cfg (view, DemoteUnexecutables) P = demoteUnexecutables view P"
| "pool_step cfg (view, SetTip tip) P = SetGasTip view tip P"
| "pool_step cfg (view, Reset reinject) P = pool_reset cfg view reinject P"
| "pool_step cfg (view, RemoveTx h) P = removeTx h P"
| "pool_step cfg (view, Evict p) P = pool_drop p P"

definition pool_run :: "PoolConfig \<Rightarrow> (ChainView \<times> pool_op) list \<Rightarrow> TxPool" where
  "pool_run cfg steps = fold (pool_step cfg) steps emptyPool"

text \<open>
  The bookkeeping behind the counts: the pending and the queued transactions
  together are the transactions of \<open>all\<close>, and the two halves of the price
  heap together are its remote ones, as multisets.
\<close>

definition pool_inv :: "TxPool \<Rightarrow> bool" where
  "pool_inv P =
     (mset (pool_pending P) + mset (pool_queue P) = mset (map fst (pool_all P)) \<and>
      mset (priced_urgent P) + mset (priced_floating P)
        = mset (map fst (filter (\<lambda>(t, local). \<not> local) (pool_all P))))"

section \<open>Sample values\<close>

text \<open>
  Closed terms need a value for the collaborators. \<open>stub_deps\<close> is one:
  \<open>crop32\<close> keeps the last 32 bytes of a slice and pads a shorter one with
  zeros on the left, as \<open>BytesToHash\<close> of the \<open>common\<close> package is known to
  do; the keys follow section 4.1 of the spec; the hash and the JSON codec are
  stand-ins (the crop is no hash function); the store never fails, as a
  memory database. No theorem depends on the choice:
  each general theorem is proved for every value of the collaborators.
\<close>

definition crop32 :: "bytes \<Rightarrow> Hash" where
  "crop32 b =
     (if length b > 32 then drop (length b - 32) b
      else replicate (32 - length b) 0 @ b)"

definition stub_deps :: deps where
  "stub_deps =
     \<lparr>BytesToHash = crop32, Hash_SetBytes = crop32, Keccak256Hash = crop32,
      EmptyCodeHash = zeroHash,
      codeKey = (\<lambda>h. 0x63 # h), metadataKey = (\<lambda>a. a @ [0x6d]),
      storageKey = (\<lambda>a k. a @ k), MetadataPrefix = [0x6d],
      jsonMarshalAccount = (\<lambda>sA. Some (PutUint64 (sA_Nonce sA) @ sA_CodeHash sA)),
      jsonMarshalMetadata = (\<lambda>r. PutUint64 (mr_Nonce r) @ mr_CodeHash r @ mr_Code r),
      jsonUnmarshalAccount = (\<lambda>b. \<lparr>sA_Nonce = 0, sA_Balance = 0, sA_CodeHash = []\<rparr>),
      read_error = (\<lambda>db k. None), iterator_error = (\<lambda>db pre. None)\<rparr>"

text \<open>The same collaborators over a store whose iterators report an error.\<close>

definition failing_deps :: deps where
  "failing_deps = stub_deps\<lparr>iterator_error := (\<lambda>db pre. Some StoreFailure)\<rparr>"

definition addr1 :: Address where
  "addr1 = [0,0,0,0,0,0,0,0,0,0,0,0,0,0,0,0,0,0,0,1]"

definition hashOf :: "8 word \<Rightarrow> Hash" where
  "hashOf n = [0,0,0,0,0,0,0,0,0,0,0,0,0,0,0,0,0,0,0,0,0,0,0,0,0,0,0,0,0,0,0,n]"

definition emptyState :: StateDB where
  "emptyState = New (NewDatabase []) (NewHistoryDB [])"

text \<open>
  A pool configuration, a chain view in which every account has nonce 0 and a
  large balance, and transactions of the first sample address.
\<close>

definition sample_cfg :: PoolConfig where
  "sample_cfg =
     \<lparr>price_bump = 10, global_slots = 4096, global_queue = 1024, tx_max_size = 131072,
      slot_size = 32768, intrinsic_gas = (\<lambda>t. 21000)\<rparr>"

definition sample_view :: ChainView where
  "sample_view =
     \<lparr>state_nonce = (\<lambda>a. 0), state_balance = (\<lambda>a. 1000000000),
      block_gas_limit = 10000000\<rparr>"

definition sample_tx :: "8 word \<Rightarrow> nat \<Rightarrow> Transaction" where
  "sample_tx h n =
     \<lparr>tx_hash = hashOf h, tx_sender = addr1, tx_nonce = n, tx_gas = 100000,
      tx_gasPrice = 1, tx_value = 100, tx_size = 200\<rparr>"

section \<open>General facts\<close>

lemma zeroHash_list:
  "zeroHash = [0,0,0,0,0,0,0,0,0,0,0,0,0,0,0,0,0,0,0,0,0,0,0,0,0,0,0,0,0,0,0,0]"
  by (simp add: zeroHash_def eval_nat_numeral)

lemma GetAccount_loop_nil:
  "rows \<noteq> [] \<Longrightarrow> GetAccount_loop rows None = Inl NilPointerDereference"
  by (cases rows) (auto simp: acct_Storage_store_def)

lemma fold_update_nonempty:
  "fold (\<lambda>(key, val) result. AList.update (f key) val result) rows acc = []
     \<Longrightarrow> rows = [] \<and> acc = []"
proof (induction rows arbitrary: acc)
  case Nil
  then show ?case by simp
next
  case (Cons r rows)
  obtain k v where r: "r = (k, v)" by (cases r)
  from Cons.prems
  have "fold (\<lambda>(key, val) result. AList.update (f key) val result) rows
          (AList.update (f k) v acc) = []"
    by (simp add: r)
  then have "AList.update (f k) v acc = []" using Cons.IH by blast
  then show ?case by (cases acc) (auto split: if_splits)
qed

lemma ReadStorage_empty_iff:
  "(ReadStorage c db addr = [])
     = (iterator_error c db addr \<noteq> None \<or> kv_NewIterator db addr = [])"
  unfolding ReadStorage_def
  using fold_update_nonempty [of "BytesToHash c" "kv_NewIterator db addr" "[]"]
  by auto

lemma stub_store_works [simp]:
  "read_error stub_deps db k = None" "iterator_error stub_deps db pre = None"
  by (simp_all add: stub_deps_def)

lemma GetAccount_empty_disk [simp]:
  "GetAccount c (NewDatabase []) addr = Inr (None, None)"
  by (simp add: GetAccount_def NewDatabase_def ReadStorage_def kv_NewIterator_def)

section \<open>The caching database\<close>




text \<open>
  C2. \<open>GetAccount\<close> returns \<open>(nil, nil)\<close> when the iterator finds no row
  under the address (or reports an error). When it works and finds a row, the
  function does not return an account: the first store through the
  unallocated \<open>acct\<close> panics.
\<close>

theorem GetAccount_rows_panic:
  "(kv_NewIterator (disk db) addr = [] \<or> iterator_error c (disk db) addr \<noteq> None
      \<longrightarrow> GetAccount c db addr = Inr (None, None)) \<and>
   (kv_NewIterator (disk db) addr \<noteq> [] \<and> iterator_error c (disk db) addr = None
      \<longrightarrow> GetAccount c db addr = Inl NilPointerDereference)"
proof -
  have none: "ReadStorage c (disk db) addr = [] \<Longrightarrow> GetAccount c db addr = Inr (None, None)"
    by (simp add: GetAccount_def)
  have some: "ReadStorage c (disk db) addr \<noteq> []
                \<Longrightarrow> GetAccount c db addr = Inl NilPointerDereference"
    by (simp add: GetAccount_def GetAccount_loop_nil)
  from none some show ?thesis
    using ReadStorage_empty_iff [of c "disk db" addr] by blast
qed

theorem GetAccount_rows_panic_witness:
  "GetAccount stub_deps (NewDatabase []) addr1 = Inr (None, None) \<and>
   kv_NewIterator (disk (NewDatabase [(metadataKey stub_deps addr1, [123, 125])])) addr1
     = [(metadataKey stub_deps addr1, [123, 125])] \<and>
   GetAccount stub_deps (NewDatabase [(metadataKey stub_deps addr1, [123, 125])]) addr1
     = Inl NilPointerDereference \<and>
   GetAccount failing_deps (NewDatabase [(metadataKey stub_deps addr1, [123, 125])]) addr1
     = Inr (None, None)"
proof -
  have it: "kv_NewIterator (disk (NewDatabase [(metadataKey stub_deps addr1, [123, 125])])) addr1
              = [(metadataKey stub_deps addr1, [123, 125])]"
    by (simp add: NewDatabase_def kv_NewIterator_def stub_deps_def addr1_def)
  have e: "kv_NewIterator (disk (NewDatabase [])) addr1 = []"
    by (simp add: NewDatabase_def kv_NewIterator_def)
  have f: "iterator_error failing_deps
             (disk (NewDatabase [(metadataKey stub_deps addr1, [123, 125])])) addr1 \<noteq> None"
    by (simp add: failing_deps_def)
  show ?thesis
    using GetAccount_rows_panic [of "NewDatabase []" addr1 stub_deps]
      GetAccount_rows_panic
        [of "NewDatabase [(metadataKey stub_deps addr1, [123, 125])]" addr1 stub_deps]
      GetAccount_rows_panic
        [of "NewDatabase [(metadataKey stub_deps addr1, [123, 125])]" addr1 failing_deps]
      it e f
    by simp
qed

section \<open>State objects\<close>

lemma getStateObject_cached:
  "map_of (stateObjects sdb) addr = Some obj \<Longrightarrow> \<not> deleted obj
     \<Longrightarrow> getStateObject c sdb addr = Inr (Some obj, sdb)"
  by (simp add: getStateObject_def getDeletedStateObject_def)

lemma GetOrNewStateObject_cached:
  "map_of (stateObjects sdb) addr = Some obj \<Longrightarrow> \<not> deleted obj
     \<Longrightarrow> GetOrNewStateObject c sdb addr = Inr (obj, sdb)"
  by (simp add: GetOrNewStateObject_def getStateObject_cached)

lemma storeObject_same:
  "map_of (stateObjects sdb) addr = Some obj \<Longrightarrow> storeObject sdb addr obj = sdb"
  by (simp add: storeObject_def update_triv)

lemma map_of_storeObject:
  "map_of (stateObjects (storeObject sdb addr obj)) addr = Some obj"
  by (simp add: storeObject_def update_conv')

lemma GetOrNewStateObject_emptyState:
  "GetOrNewStateObject c emptyState addr =
     Inr (newObject c addr None, setStateObject emptyState (newObject c addr None))"
  by (simp add: GetOrNewStateObject_def getStateObject_def getDeletedStateObject_def
        createObject_def emptyState_def New_def Let_def)

text \<open>
  C10. When the state object of an address is cached and not deleted,
  \<open>AddBalance\<close> and \<open>SubBalance\<close> of 0 return the state database as it was:
  same balance, same journal, same metadata record. \<open>SetBalance\<close> to the
  balance the object already has is no such no-op. On an object with an
  allocated metadata record (one that \<open>newObject\<close> made) it appends a
  \<open>balanceChange\<close> entry holding the previous balance and stamps the metadata
  record of the current transaction index. On an object without one (one that
  \<open>deepCopy\<close> made) it appends the entry and then panics on the assignment
  into the nil map.
\<close>

theorem AddBalance_zero_noop:
  assumes "map_of (stateObjects sdb) addr = Some obj" and "\<not> deleted obj"
  shows "StateDB_AddBalance c sdb addr 0 = Inr sdb \<and>
         StateDB_SubBalance c sdb addr 0 = Inr sdb \<and>
         (metadataRecord obj \<noteq> None \<longrightarrow>
            (\<exists>sdb' obj'.
               StateDB_SetBalance c sdb addr (Balance (data obj)) = Inr sdb' \<and>
               entries (journal sdb') =
                 entries (journal sdb) @ [balanceChange (address obj) (Balance (data obj))] \<and>
               map_of (stateObjects sdb') addr = Some obj' \<and>
               Balance (data obj') = Balance (data obj) \<and>
               metadataRecord_lookup (metadataRecord obj') (txIndex sdb) \<noteq> None)) \<and>
         (metadataRecord obj = None \<longrightarrow>
            StateDB_SetBalance c sdb addr (Balance (data obj)) = Inl NilMapAssignment)"
proof -
  have a: "StateDB_AddBalance c sdb addr 0 = Inr sdb"
    using assms
    by (simp add: StateDB_AddBalance_def GetOrNewStateObject_cached
          stateObject_AddBalance_def storeObject_same)
  have b: "StateDB_SubBalance c sdb addr 0 = Inr sdb"
    using assms
    by (simp add: StateDB_SubBalance_def GetOrNewStateObject_cached
          stateObject_SubBalance_def storeObject_same)
  have c: "metadataRecord obj \<noteq> None \<longrightarrow>
            (\<exists>sdb' obj'.
               StateDB_SetBalance c sdb addr (Balance (data obj)) = Inr sdb' \<and>
               entries (journal sdb') =
                 entries (journal sdb) @ [balanceChange (address obj) (Balance (data obj))] \<and>
               map_of (stateObjects sdb') addr = Some obj' \<and>
               Balance (data obj') = Balance (data obj) \<and>
               metadataRecord_lookup (metadataRecord obj') (txIndex sdb) \<noteq> None)"
    using assms
    by (auto simp: StateDB_SetBalance_def GetOrNewStateObject_cached
          stateObject_SetBalance_def Let_def journal_append_def setBalance_def
          metadataRecord_store_def metadataRecord_lookup_def
          storeObject_def update_conv')
  have d: "metadataRecord obj = None \<longrightarrow>
            StateDB_SetBalance c sdb addr (Balance (data obj)) = Inl NilMapAssignment"
    using assms
    by (simp add: StateDB_SetBalance_def GetOrNewStateObject_cached
          stateObject_SetBalance_def Let_def metadataRecord_store_def)
  from a b c d show ?thesis by blast
qed

lemma SetBalance_then_Copy_run:
  "(case StateDB_SetBalance stub_deps emptyState addr1 1 of
      Inl p \<Rightarrow> False
    | Inr s1 \<Rightarrow>
        (case Copy s1 of
           Inl p \<Rightarrow> False
         | Inr cp \<Rightarrow>
             (case map_of (stateObjects cp) addr1 of
                None \<Rightarrow> False
              | Some obj \<Rightarrow>
                  \<not> deleted obj \<and> metadataRecord obj = None \<and> Balance (data obj) = 1)))"
  unfolding StateDB_SetBalance_def GetOrNewStateObject_emptyState
  by (simp add: stateObject_SetBalance_def newObject_def NewEmptyStateAccount_def
        setStateObject_def emptyState_def New_def newJournal_def journal_append_def
        count_of_def setBalance_def storeObject_def metadataRecord_store_def
        metadataRecord_lookup_def Copy_def Copy_journal_step_def deepCopy_def Let_def)

theorem AddBalance_zero_noop_witness:
  "StateDB_AddBalance stub_deps
     (setStateObject emptyState (newObject stub_deps addr1 None)) addr1 0
     = Inr (setStateObject emptyState (newObject stub_deps addr1 None)) \<and>
   StateDB_SubBalance stub_deps
     (setStateObject emptyState (newObject stub_deps addr1 None)) addr1 0
     = Inr (setStateObject emptyState (newObject stub_deps addr1 None)) \<and>
   (\<exists>sdb'. StateDB_SetBalance stub_deps
              (setStateObject emptyState (newObject stub_deps addr1 None)) addr1 0 = Inr sdb' \<and>
           entries (journal sdb') = [balanceChange addr1 0]) \<and>
   (\<exists>s1 cp. StateDB_SetBalance stub_deps emptyState addr1 1 = Inr s1 \<and>
            Copy s1 = Inr cp \<and>
            StateDB_AddBalance stub_deps cp addr1 0 = Inr cp \<and>
            StateDB_SetBalance stub_deps cp addr1 1 = Inl NilMapAssignment)"
proof -
  have m: "map_of (stateObjects (setStateObject emptyState (newObject stub_deps addr1 None))) addr1
             = Some (newObject stub_deps addr1 None)"
    by (simp add: setStateObject_def newObject_def emptyState_def New_def)
  have d: "\<not> deleted (newObject stub_deps addr1 None)"
    by (simp add: newObject_def)
  have j: "entries (journal (setStateObject emptyState (newObject stub_deps addr1 None))) = []"
    by (simp add: setStateObject_def emptyState_def New_def newJournal_def)
  have v: "Balance (data (newObject stub_deps addr1 None)) = 0"
          "address (newObject stub_deps addr1 None) = addr1"
          "metadataRecord (newObject stub_deps addr1 None) \<noteq> None"
    by (simp_all add: newObject_def NewEmptyStateAccount_def)
  have fresh:
    "StateDB_AddBalance stub_deps
       (setStateObject emptyState (newObject stub_deps addr1 None)) addr1 0
       = Inr (setStateObject emptyState (newObject stub_deps addr1 None)) \<and>
     StateDB_SubBalance stub_deps
       (setStateObject emptyState (newObject stub_deps addr1 None)) addr1 0
       = Inr (setStateObject emptyState (newObject stub_deps addr1 None)) \<and>
     (\<exists>sdb'. StateDB_SetBalance stub_deps
                (setStateObject emptyState (newObject stub_deps addr1 None)) addr1 0 = Inr sdb' \<and>
             entries (journal sdb') = [balanceChange addr1 0])"
    using AddBalance_zero_noop [OF m d, of stub_deps] j v by auto
  from SetBalance_then_Copy_run
  obtain s1 cp obj
    where sb: "StateDB_SetBalance stub_deps emptyState addr1 1 = Inr s1"
      and cp: "Copy s1 = Inr cp"
      and ob: "map_of (stateObjects cp) addr1 = Some obj"
      and nd: "\<not> deleted obj"
      and nr: "metadataRecord obj = None"
      and bl: "Balance (data obj) = 1"
    by (auto split: sum.splits option.splits)
  from AddBalance_zero_noop [OF ob nd, of stub_deps] nr bl
  have copied: "StateDB_AddBalance stub_deps cp addr1 0 = Inr cp \<and>
                StateDB_SetBalance stub_deps cp addr1 1 = Inl NilMapAssignment"
    by simp
  from fresh sb cp copied show ?thesis by blast
qed

text \<open>
  C5. \<open>SetState\<close> with the value that \<open>GetState\<close> returns appends no
  journal entry and writes neither the dirty layer nor the per-transaction
  record. With another value it appends the entry and then assigns into
  \<open>storageRecord[txIndex]\<close>: when that inner map exists the effect is the one
  claimed, and when it does not, which is the case for every object that
  \<open>newObject\<close> makes, the call panics.
\<close>

theorem SetState_panics_without_record:
  "(fst (stateObject_GetState c (db, s) key) = val \<longrightarrow>
      (\<exists>db' s'. stateObject_SetState c (db, s) key val = Inr (db', s') \<and>
         journal db' = journal db \<and> dirtyStorage s' = dirtyStorage s \<and>
         storageRecord s' = storageRecord s)) \<and>
   (fst (stateObject_GetState c (db, s) key) \<noteq> val \<and>
    map_of (storageRecord s) (txIndex db) = None \<longrightarrow>
      stateObject_SetState c (db, s) key val = Inl NilMapAssignment) \<and>
   (fst (stateObject_GetState c (db, s) key) \<noteq> val \<and>
    map_of (storageRecord s) (txIndex db) = Some inner \<longrightarrow>
      (\<exists>db' s'. stateObject_SetState c (db, s) key val = Inr (db', s') \<and>
         entries (journal db') = entries (journal db) @
            [storageChange (address s) key (fst (stateObject_GetState c (db, s) key))] \<and>
         map_of (dirtyStorage s') key = Some val \<and>
         map_of (storageRecord s') (txIndex db) = Some (AList.update key val inner)))"
proof -
  obtain prev db1 s1 where g: "stateObject_GetState c (db, s) key = (prev, db1, s1)"
    by (cases "stateObject_GetState c (db, s) key") auto
  have keep: "journal db1 = journal db \<and> txIndex db1 = txIndex db \<and>
              dirtyStorage s1 = dirtyStorage s \<and> storageRecord s1 = storageRecord s \<and>
              address s1 = address s"
    using g
    by (auto simp: stateObject_GetState_def stateObject_GetCommittedState_def setError_def
          Let_def split: option.splits prod.splits if_splits)
  show ?thesis
    using g keep
    by (simp add: stateObject_SetState_def storageRecord_store_def Let_def
          journal_append_def setState_def update_conv')
qed

theorem SetState_panics_without_record_witness:
  "stateObject_SetState stub_deps (emptyState, newObject stub_deps addr1 None)
       (hashOf 1) zeroHash
     = Inr (setError emptyState KeyNotFound, newObject stub_deps addr1 None) \<and>
   stateObject_SetState stub_deps (emptyState, newObject stub_deps addr1 None)
       (hashOf 1) (hashOf 2)
     = Inl NilMapAssignment \<and>
   (\<exists>db' s'. stateObject_SetState stub_deps
        (emptyState, (newObject stub_deps addr1 None)\<lparr>storageRecord := [(0, [])]\<rparr>)
        (hashOf 1) (hashOf 2) = Inr (db', s') \<and>
      map_of (storageRecord s') 0 = Some [(hashOf 1, hashOf 2)])"
proof -
  have g: "stateObject_GetState stub_deps (emptyState, newObject stub_deps addr1 None) (hashOf 1)
             = (zeroHash, setError emptyState KeyNotFound, newObject stub_deps addr1 None)"
    by (simp add: stateObject_GetState_def stateObject_GetCommittedState_def newObject_def
          GetOriginStorage_def NewEmptyStateAccount_def)
  have g': "stateObject_GetState stub_deps
              (emptyState, (newObject stub_deps addr1 None)\<lparr>storageRecord := [(0, [])]\<rparr>) (hashOf 1)
             = (zeroHash, setError emptyState KeyNotFound,
                (newObject stub_deps addr1 None)\<lparr>storageRecord := [(0, [])]\<rparr>)"
    by (simp add: stateObject_GetState_def stateObject_GetCommittedState_def newObject_def
          GetOriginStorage_def NewEmptyStateAccount_def)
  have ne: "zeroHash \<noteq> hashOf 2"
    by (simp add: zeroHash_list hashOf_def)
  have r: "map_of (storageRecord (newObject stub_deps addr1 None)) (txIndex emptyState) = None"
    by (simp add: newObject_def)
  have t: "txIndex emptyState = 0"
    by (simp add: emptyState_def New_def)
  have a: "stateObject_SetState stub_deps (emptyState, newObject stub_deps addr1 None)
             (hashOf 1) zeroHash
           = Inr (setError emptyState KeyNotFound, newObject stub_deps addr1 None)"
    using g by (simp add: stateObject_SetState_def)
  have b: "stateObject_SetState stub_deps (emptyState, newObject stub_deps addr1 None)
             (hashOf 1) (hashOf 2) = Inl NilMapAssignment"
    using SetState_panics_without_record
            [of stub_deps emptyState "newObject stub_deps addr1 None" "hashOf 1" "hashOf 2"]
          g ne r
    by simp
  have c: "\<exists>db' s'. stateObject_SetState stub_deps
        (emptyState, (newObject stub_deps addr1 None)\<lparr>storageRecord := [(0, [])]\<rparr>)
        (hashOf 1) (hashOf 2) = Inr (db', s') \<and>
      map_of (storageRecord s') 0 = Some [(hashOf 1, hashOf 2)]"
    using SetState_panics_without_record
            [of stub_deps emptyState "(newObject stub_deps addr1 None)\<lparr>storageRecord := [(0, [])]\<rparr>"
                "hashOf 1" "hashOf 2" "[]"]
          g' ne t
    by auto
  from a b c show ?thesis by blast
qed

lemma StateDB_SetState_fresh_panics:
  "StateDB_SetState c emptyState addr1 (hashOf 1) (hashOf 2) = Inl NilMapAssignment"
  unfolding StateDB_SetState_def GetOrNewStateObject_emptyState
  by (simp add: stateObject_SetState_def
        stateObject_GetState_def stateObject_GetCommittedState_def newObject_def
        GetOriginStorage_def NewEmptyStateAccount_def setStateObject_def emptyState_def New_def
        setError_def zeroHash_list hashOf_def storageRecord_store_def journal_append_def Let_def)

text \<open>
  The layers that a state object holds in memory are read in the order dirty,
  pending, origin, and then the rows of the account record; a key in none of
  them gives the zero hash.
\<close>

lemma GetState_memory_layers:
  "(map_of (dirtyStorage s) key = Some v \<longrightarrow>
      fst (stateObject_GetState c (db, s) key) = v) \<and>
   (map_of (dirtyStorage s) key = None \<longrightarrow>
      fst (stateObject_GetState c (db, s) key)
        = fst (stateObject_GetCommittedState c (db, s) key)) \<and>
   (map_of (pendingStorage s) key = Some v \<longrightarrow>
      fst (stateObject_GetCommittedState c (db, s) key) = v) \<and>
   (map_of (pendingStorage s) key = None \<and> map_of (originStorage s) key = Some v \<longrightarrow>
      fst (stateObject_GetCommittedState c (db, s) key) = v) \<and>
   (map_of (pendingStorage s) key = None \<and> map_of (originStorage s) key = None \<and>
    map_of (Storage (data s)) (BytesToHash c (address s @ key)) = Some bs \<longrightarrow>
      fst (stateObject_GetCommittedState c (db, s) key) = Hash_SetBytes c bs) \<and>
   (map_of (pendingStorage s) key = None \<and> map_of (originStorage s) key = None \<and>
    map_of (Storage (data s)) (BytesToHash c (address s @ key)) = None \<longrightarrow>
      fst (stateObject_GetCommittedState c (db, s) key) = zeroHash)"
  by (simp add: stateObject_GetState_def stateObject_GetCommittedState_def
        GetOriginStorage_def Let_def)

lemma hashOf_inject [simp]: "(hashOf a = hashOf b) = (a = b)"
  by (simp add: hashOf_def)

lemma getStateObject_rows_panic:
  assumes "map_of (stateObjects sdb) addr = None"
      and "iterator_error c (disk (currentDB sdb)) addr = None"
      and "kv_NewIterator (disk (currentDB sdb)) addr \<noteq> []"
  shows "getStateObject c sdb addr = Inl NilPointerDereference"
proof -
  have "ReadStorage c (disk (currentDB sdb)) addr \<noteq> []"
    using assms(2,3) ReadStorage_empty_iff [of c "disk (currentDB sdb)" addr] by simp
  then have "GetAccount c (currentDB sdb) addr = Inl NilPointerDereference"
    by (simp add: GetAccount_def GetAccount_loop_nil)
  with assms(1) show ?thesis
    by (simp add: getStateObject_def getDeletedStateObject_def)
qed

text \<open>
  C4. The chain of \<open>GetState\<close> never reaches the disk. For an address whose
  object is not cached and that has a row on disk, the load of the account
  panics before any layer is read. For a cached object, a key that is in none
  of the layers in memory reads as the zero hash and sets the error memo,
  whatever the disk holds under the key.
\<close>

theorem GetState_never_reads_disk:
  "(map_of (stateObjects sdb) addr = None \<and>
    iterator_error c (disk (currentDB sdb)) addr = None \<and>
    kv_NewIterator (disk (currentDB sdb)) addr \<noteq> [] \<longrightarrow>
      StateDB_GetState c sdb addr key = Inl NilPointerDereference \<and>
      StateDB_GetCommittedState c sdb addr key = Inl NilPointerDereference) \<and>
   (map_of (stateObjects sdb) addr = Some s \<and> \<not> deleted s \<and>
    map_of (dirtyStorage s) key = None \<and> map_of (pendingStorage s) key = None \<and>
    map_of (originStorage s) key = None \<and>
    map_of (Storage (data s)) (BytesToHash c (address s @ key)) = None \<longrightarrow>
      StateDB_GetState c sdb addr key = Inr (zeroHash, setError sdb KeyNotFound) \<and>
      StateDB_GetCommittedState c sdb addr key = Inr (zeroHash, setError sdb KeyNotFound))"
proof -
  have a: "map_of (stateObjects sdb) addr = None \<and>
           iterator_error c (disk (currentDB sdb)) addr = None \<and>
           kv_NewIterator (disk (currentDB sdb)) addr \<noteq> [] \<longrightarrow>
             StateDB_GetState c sdb addr key = Inl NilPointerDereference \<and>
             StateDB_GetCommittedState c sdb addr key = Inl NilPointerDereference"
    by (simp add: StateDB_GetState_def StateDB_GetCommittedState_def getStateObject_rows_panic)
  have st: "map_of (stateObjects sdb) addr = Some s
              \<Longrightarrow> storeObject (setError sdb KeyNotFound) addr s = setError sdb KeyNotFound"
    by (rule storeObject_same) (simp add: setError_def)
  have b: "map_of (stateObjects sdb) addr = Some s \<and> \<not> deleted s \<and>
           map_of (dirtyStorage s) key = None \<and> map_of (pendingStorage s) key = None \<and>
           map_of (originStorage s) key = None \<and>
           map_of (Storage (data s)) (BytesToHash c (address s @ key)) = None \<longrightarrow>
             StateDB_GetState c sdb addr key = Inr (zeroHash, setError sdb KeyNotFound) \<and>
             StateDB_GetCommittedState c sdb addr key = Inr (zeroHash, setError sdb KeyNotFound)"
    using st
    by (simp add: StateDB_GetState_def StateDB_GetCommittedState_def getStateObject_cached
          stateObject_GetState_def stateObject_GetCommittedState_def GetOriginStorage_def)
  from a b show ?thesis by blast
qed

theorem GetState_never_reads_disk_witness:
  "kv_Get (disk (currentDB (New (NewDatabase [(storageKey stub_deps addr1 (hashOf 1), hashOf 9)])
                               (NewHistoryDB []))))
      (storageKey stub_deps addr1 (hashOf 1)) = Some (hashOf 9) \<and>
   StateDB_GetState stub_deps
      (New (NewDatabase [(storageKey stub_deps addr1 (hashOf 1), hashOf 9)]) (NewHistoryDB []))
      addr1 (hashOf 1) = Inl NilPointerDereference \<and>
   StateDB_GetState stub_deps
      ((setStateObject emptyState (newObject stub_deps addr1 None))
         \<lparr>currentDB := NewDatabase [(storageKey stub_deps addr1 (hashOf 1), hashOf 9)]\<rparr>)
      addr1 (hashOf 1)
     = Inr (zeroHash,
            setError ((setStateObject emptyState (newObject stub_deps addr1 None))
                        \<lparr>currentDB := NewDatabase [(storageKey stub_deps addr1 (hashOf 1), hashOf 9)]\<rparr>)
                     KeyNotFound) \<and>
   zeroHash \<noteq> hashOf 9"
proof -
  define rows where "rows = [(storageKey stub_deps addr1 (hashOf 1), hashOf 9)]"
  define cold where "cold = New (NewDatabase rows) (NewHistoryDB [])"
  define warm where "warm = (setStateObject emptyState (newObject stub_deps addr1 None))
                              \<lparr>currentDB := NewDatabase rows\<rparr>"
  have g: "kv_Get (disk (currentDB cold)) (storageKey stub_deps addr1 (hashOf 1)) = Some (hashOf 9)"
    by (simp add: cold_def rows_def New_def NewDatabase_def kv_Get_def)
  have c1: "map_of (stateObjects cold) addr1 = None"
    by (simp add: cold_def New_def)
  have c2: "kv_NewIterator (disk (currentDB cold)) addr1 \<noteq> []"
    by (simp add: cold_def rows_def New_def NewDatabase_def kv_NewIterator_def stub_deps_def
          addr1_def)
  have p: "StateDB_GetState stub_deps cold addr1 (hashOf 1) = Inl NilPointerDereference"
    using GetState_never_reads_disk
            [where sdb = cold and addr = addr1 and c = stub_deps and key = "hashOf 1"] c1 c2
    by simp
  have w1: "map_of (stateObjects warm) addr1 = Some (newObject stub_deps addr1 None)"
    by (simp add: warm_def setStateObject_def newObject_def emptyState_def New_def)
  have w2: "\<not> deleted (newObject stub_deps addr1 None)"
           "dirtyStorage (newObject stub_deps addr1 None) = []"
           "pendingStorage (newObject stub_deps addr1 None) = []"
           "originStorage (newObject stub_deps addr1 None) = []"
           "Storage (data (newObject stub_deps addr1 None)) = []"
    by (simp_all add: newObject_def NewEmptyStateAccount_def)
  have z: "StateDB_GetState stub_deps warm addr1 (hashOf 1)
             = Inr (zeroHash, setError warm KeyNotFound)"
    using GetState_never_reads_disk
            [where sdb = warm and addr = addr1 and c = stub_deps and key = "hashOf 1"
               and s = "newObject stub_deps addr1 None"] w1 w2
    by simp
  have n: "zeroHash \<noteq> hashOf 9"
    by (simp add: zeroHash_list hashOf_def)
  from g p z n show ?thesis
    unfolding cold_def warm_def rows_def by blast
qed

section \<open>The state database\<close>

text \<open>
  What does hold of the error memo: \<open>setError\<close> keeps a memo that is set and
  sets one that is not; a read of a slot that is in no layer, and a read of
  code that \<open>ContractCode\<close> cannot find, return the zero hash and nil and
  record their error unless an earlier one is recorded; with the memo set,
  \<open>Commit\<close> returns the error at once and leaves the state as it was.
\<close>

lemma error_memo_kept:
  "(dbErr sdb = Some e \<longrightarrow> setError sdb e' = sdb) \<and>
   (dbErr sdb = None \<longrightarrow> dbErr (setError sdb e') = Some e') \<and>
   (map_of (pendingStorage s) key = None \<and> map_of (originStorage s) key = None \<and>
    snd (GetOriginStorage c s (address s) key) = Some e \<longrightarrow>
      stateObject_GetCommittedState c (sdb, s) key = (zeroHash, setError sdb e, s)) \<and>
   (code s = None \<and>
    snd (fst (ContractCode c (currentDB sdb) (address s)
                (BytesToHash c (stateObject_CodeHash s)))) = Some e \<longrightarrow>
      (\<exists>sdb' s'. stateObject_Code c (sdb, s) = (None, sdb', s') \<and>
         dbErr sdb' = (case dbErr sdb of
                         None \<Rightarrow> Some (CantLoadCodeHash (stateObject_CodeHash s) e)
                       | Some e0 \<Rightarrow> Some e0))) \<and>
   (dbErr sdb \<noteq> None \<longrightarrow> Commit c sdb = Inr ((zeroHash, Some CommitAborted), sdb))"
proof -
  have a: "dbErr sdb = Some e \<longrightarrow> setError sdb e' = sdb"
    by (simp add: setError_def)
  have b: "dbErr sdb = None \<longrightarrow> dbErr (setError sdb e') = Some e'"
    by (simp add: setError_def)
  have g: "map_of (pendingStorage s) key = None \<and> map_of (originStorage s) key = None \<and>
           snd (GetOriginStorage c s (address s) key) = Some e \<longrightarrow>
             stateObject_GetCommittedState c (sdb, s) key = (zeroHash, setError sdb e, s)"
    by (auto simp: stateObject_GetCommittedState_def split: prod.splits option.splits)
  have cd: "code s = None \<and>
            snd (fst (ContractCode c (currentDB sdb) (address s)
                        (BytesToHash c (stateObject_CodeHash s)))) = Some e \<longrightarrow>
            (\<exists>sdb' s'. stateObject_Code c (sdb, s) = (None, sdb', s') \<and>
               dbErr sdb' = (case dbErr sdb of
                               None \<Rightarrow> Some (CantLoadCodeHash (stateObject_CodeHash s) e)
                             | Some e0 \<Rightarrow> Some e0))"
    by (auto simp: stateObject_Code_def ContractCode_def Let_def setError_def
          split: if_splits option.splits)
  have cm: "dbErr sdb \<noteq> None \<longrightarrow> Commit c sdb = Inr ((zeroHash, Some CommitAborted), sdb)"
    by (simp add: Commit_def)
  from a b g cd cm show ?thesis by blast
qed

text \<open>
  C7. An error of the store on the load of an account is not memoised. When
  the iterator over the rows of an address reports an error, \<open>ReadStorage\<close>
  returns the nil map and \<open>GetAccount\<close> returns \<open>(nil, nil)\<close>, as for an
  address without rows: the reads of balance, slot and code through the state
  database return their zero values and leave the state, and with it the
  memo, as they were.
\<close>

theorem store_error_not_memoised:
  assumes "map_of (stateObjects sdb) addr = None"
      and "iterator_error c (disk (currentDB sdb)) addr = Some e"
  shows "GetAccount c (currentDB sdb) addr = Inr (None, None) \<and>
         StateDB_GetBalance c sdb addr = Inr (0, sdb) \<and>
         StateDB_GetState c sdb addr key = Inr (zeroHash, sdb) \<and>
         StateDB_GetCode c sdb addr = Inr (None, sdb)"
proof -
  have r: "ReadStorage c (disk (currentDB sdb)) addr = []"
    using assms(2) by (simp add: ReadStorage_def)
  then have g: "GetAccount c (currentDB sdb) addr = Inr (None, None)"
    by (simp add: GetAccount_def)
  with assms(1) have o: "getStateObject c sdb addr = Inr (None, sdb)"
    by (simp add: getStateObject_def getDeletedStateObject_def)
  from g o show ?thesis
    by (simp add: StateDB_GetBalance_def StateDB_GetState_def StateDB_GetCode_def)
qed

theorem store_error_not_memoised_witness:
  "iterator_error failing_deps (disk (currentDB emptyState)) addr1 = Some StoreFailure \<and>
   StateDB_GetBalance failing_deps emptyState addr1 = Inr (0, emptyState) \<and>
   StateDB_GetState failing_deps emptyState addr1 (hashOf 1) = Inr (zeroHash, emptyState) \<and>
   StateDB_GetCode failing_deps emptyState addr1 = Inr (None, emptyState) \<and>
   dbErr emptyState = None \<and>
   map_sum id fst (Commit failing_deps emptyState)
     = Inr (Keccak256Hash failing_deps [], None)"
proof -
  have f: "iterator_error failing_deps (disk (currentDB emptyState)) addr1 = Some StoreFailure"
    by (simp add: failing_deps_def)
  have m: "map_of (stateObjects emptyState) addr1 = None"
    by (simp add: emptyState_def New_def)
  have n: "dbErr emptyState = None"
    by (simp add: emptyState_def New_def)
  have cm: "map_sum id fst (Commit failing_deps emptyState)
              = Inr (Keccak256Hash failing_deps [], None)"
    by (simp add: Commit_def Finalise_def clearJournalAndRefund_def emptyState_def New_def
          newJournal_def Commit_hashBytes_def Let_def)
  from store_error_not_memoised [OF m f, of "hashOf 1"] f n cm show ?thesis
    by simp
qed

text \<open>
  C3. The balance of an address is set to 1, a snapshot is taken, the balance
  is set to 2 and the state is reverted to the snapshot. The balance read
  afterwards is 2, not the 1 it was at the snapshot, and the journal still has
  both entries, with the address counted twice among the dirty ones.
\<close>

theorem RevertToSnapshot_keeps_changes:
  "(case StateDB_SetBalance c emptyState addr1 1 of
      Inl p \<Rightarrow> None
    | Inr s1 \<Rightarrow>
        (case Snapshot s1 of
           (revid, s2) \<Rightarrow>
             (case StateDB_SetBalance c s2 addr1 2 of
                Inl p \<Rightarrow> None
              | Inr s3 \<Rightarrow>
                  (case (StateDB_GetBalance c s1 addr1,
                         StateDB_GetBalance c (RevertToSnapshot s3 revid) addr1) of
                     (Inr (before, t1), Inr (after, t2)) \<Rightarrow>
                       Some (before, after, length (entries (journal s1)),
                             length (entries (journal t2)),
                             count_of (dirties (journal t2)) addr1)
                   | _ \<Rightarrow> None))))
   = Some (1, 2, 1, 2, 2)"
  unfolding StateDB_SetBalance_def GetOrNewStateObject_emptyState
  by (simp add: stateObject_SetBalance_def newObject_def NewEmptyStateAccount_def
        setStateObject_def emptyState_def New_def newJournal_def journal_append_def
        count_of_def setBalance_def storeObject_def Snapshot_def RevertToSnapshot_def
        metadataRecord_store_def metadataRecord_lookup_def
        GetOrNewStateObject_def getStateObject_def getDeletedStateObject_def
        StateDB_GetBalance_def Let_def)

subsection \<open>What a commit leaves on disk\<close>

lemma CommitAccount_db: "snd (CommitAccount c db addr metadata pending) = db"
  by (simp add: CommitAccount_def Let_def split: prod.splits option.splits)

lemma CommitAccountToHistory_db:
  "snd (CommitAccountToHistory c hdb addr bn srec mrec) = hdb"
  by (simp add: CommitAccountToHistory_def Let_def split: prod.splits option.splits)

lemma commitHistory_db: "snd (commitHistory c s bn hdb) = hdb"
proof -
  define mrec where "mrec = (case metadataRecord s of None \<Rightarrow> [] | Some m \<Rightarrow> m)"
  obtain e h where r: "CommitAccountToHistory c hdb (address s) bn (storageRecord s) mrec = (e, h)"
    by (cases "CommitAccountToHistory c hdb (address s) bn (storageRecord s) mrec")
  with CommitAccountToHistory_db [of c hdb "address s" bn "storageRecord s" mrec]
  have "h = hdb" by simp
  with r show ?thesis
    unfolding commitHistory_def mrec_def [symmetric] by (simp split: option.splits)
qed

lemma CommitAccount_eq: "CommitAccount c db addr metadata pending = (e, db') \<Longrightarrow> db' = db"
  using CommitAccount_db [of c db addr metadata pending] by simp

lemma writeSet_loop_nil: "writeSet_loop pending None = Inr ws \<Longrightarrow> ws = None"
  by (cases pending) auto

lemma stateObject_commit_db:
  assumes "stateObject_commit c (db, s) = Inr (e, db')"
  shows "currentDB db' = currentDB db \<and> historyDB db' = historyDB db \<and>
         (writeSet db = None \<longrightarrow> writeSet db' = None)"
  using assms
  by (auto simp: stateObject_commit_def Let_def dest!: CommitAccount_eq writeSet_loop_nil
        split: option.splits sum.splits prod.splits)

lemma Commit_loop_db:
  "Commit_loop c addrs (sdb, w) = Inr (e, sdb', w')
     \<Longrightarrow> currentDB sdb' = currentDB sdb \<and> historyDB sdb' = historyDB sdb \<and>
         (writeSet sdb = None \<longrightarrow> writeSet sdb' = None)"
proof (induction addrs arbitrary: sdb w)
  case Nil
  then show ?case by simp
next
  case (Cons addr rest)
  show ?case
  proof (cases "map_of (stateObjects sdb) addr")
    case None
    with Cons.prems show ?thesis by simp
  next
    case (Some obj)
    show ?thesis
    proof (cases "deleted obj")
      case True
      with Some Cons.prems have "Commit_loop c rest (sdb, w) = Inr (e, sdb', w')" by simp
      then show ?thesis by (rule Cons.IH)
    next
      case False
      define wo where "wo = (if code obj \<noteq> None \<and> dirtyCode obj
                       then (WriteCode c w (BytesToHash c (stateObject_CodeHash obj))
                               (the (code obj)),
                             obj\<lparr>dirtyCode := False\<rparr>)
                       else (w, obj))"
      define sdb1 where "sdb1 = storeObject sdb addr (snd wo)"
      have s1: "currentDB sdb1 = currentDB sdb \<and> historyDB sdb1 = historyDB sdb \<and>
                writeSet sdb1 = writeSet sdb"
        by (simp add: sdb1_def storeObject_def)
      from Cons.prems Some False
      have run: "(case stateObject_commit c (sdb1, snd wo) of
                    Inl p \<Rightarrow> Inl p
                  | Inr (Some e, sdb2) \<Rightarrow> Inr (Some e, sdb2, fst wo)
                  | Inr (None, sdb2) \<Rightarrow>
                      (case commitHistory c (snd wo) (blockNum sdb2) (historyDB sdb2) of
                         (Some e, hdb) \<Rightarrow> Inr (Some e, sdb2\<lparr>historyDB := hdb\<rparr>, fst wo)
                       | (None, hdb) \<Rightarrow>
                           Commit_loop c rest (sdb2\<lparr>historyDB := hdb\<rparr>, fst wo)))
                 = Inr (e, sdb', w')"
        unfolding wo_def sdb1_def
        by (simp only: Commit_loop.simps option.case if_False Let_def)
      then obtain e2 sdb2 where c2: "stateObject_commit c (sdb1, snd wo) = Inr (e2, sdb2)"
        by (cases "stateObject_commit c (sdb1, snd wo)") auto
      from stateObject_commit_db [OF c2] s1
      have s2: "currentDB sdb2 = currentDB sdb \<and> historyDB sdb2 = historyDB sdb \<and>
                (writeSet sdb = None \<longrightarrow> writeSet sdb2 = None)" by simp
      show ?thesis
      proof (cases e2)
        case (Some err)
        with run c2 have "sdb' = sdb2" by simp
        with s2 show ?thesis by simp
      next
        case None
        obtain eh hdb where h: "commitHistory c (snd wo) (blockNum sdb2) (historyDB sdb2)
                                  = (eh, hdb)"
          by (cases "commitHistory c (snd wo) (blockNum sdb2) (historyDB sdb2)")
        with commitHistory_db [of c "snd wo" "blockNum sdb2" "historyDB sdb2"]
        have hd: "hdb = historyDB sdb2" by simp
        show ?thesis
        proof (cases eh)
          case (Some err)
          with run c2 None h have "sdb' = sdb2\<lparr>historyDB := hdb\<rparr>" by simp
          with s2 hd show ?thesis by simp
        next
          case None': None
          with run c2 None h
          have "Commit_loop c rest (sdb2\<lparr>historyDB := hdb\<rparr>, fst wo) = Inr (e, sdb', w')"
            by simp
          from Cons.IH [OF this] s2 hd show ?thesis by simp
        qed
      qed
    qed
  qed
qed

lemma Finalise_step_db:
  "currentDB (Finalise_step addr sdb) = currentDB sdb \<and>
   historyDB (Finalise_step addr sdb) = historyDB sdb \<and>
   writeSet (Finalise_step addr sdb) = writeSet sdb"
  by (simp add: Finalise_step_def storeObject_def split: option.splits)

lemma fold_Finalise_step_db:
  "currentDB (fold Finalise_step addrs sdb) = currentDB sdb \<and>
   historyDB (fold Finalise_step addrs sdb) = historyDB sdb \<and>
   writeSet (fold Finalise_step addrs sdb) = writeSet sdb"
  by (induction addrs arbitrary: sdb) (simp_all add: Finalise_step_db)

lemma Finalise_db:
  "currentDB (Finalise sdb) = currentDB sdb \<and> historyDB (Finalise sdb) = historyDB sdb \<and>
   writeSet (Finalise sdb) = writeSet sdb"
  by (simp add: Finalise_def clearJournalAndRefund_def fold_Finalise_step_db)

text \<open>
  C1. Whatever \<open>Commit\<close> returns, the current-state database and the history
  database are afterwards what they were before: every batch that the commit
  fills (for code, for an account's metadata and slots, for its history rows)
  is dropped unwritten. A fresh \<open>StateDB\<close> over the same disk therefore reads
  what was on disk before the block, not the committed values.
\<close>

theorem Commit_writes_nothing:
  assumes "Commit c sdb = Inr (r, sdb')"
  shows "disk (currentDB sdb') = disk (currentDB sdb) \<and>
         hdisk (historyDB sdb') = hdisk (historyDB sdb)"
proof (cases "dbErr sdb \<noteq> None")
  case True
  with assms have "sdb' = sdb" by (simp add: Commit_def)
  then show ?thesis by simp
next
  case False
  with assms obtain e sdb2 w
    where l: "Commit_loop c (stateObjectsDirty (Finalise sdb)) (Finalise sdb, NewBatch)
                = Inr (e, sdb2, w)"
      and s: "sdb' = sdb2"
    by (auto simp: Commit_def Let_def split: sum.splits option.splits prod.splits)
  from Commit_loop_db [OF l] Finalise_db [of sdb] s show ?thesis by simp
qed


lemma CommitAccount_loop_ok: "fst (CommitAccount_loop c addr pending w) = None"
  by (induction c addr pending w rule: CommitAccount_loop.induct)
     (simp_all add: WriteStorageToCurrent_def batch_Put_def)

lemma CommitAccount_ok: "CommitAccount c db addr metadata pending = (None, db)"
proof -
  obtain w where m: "WriteMetadataToCurrent c NewBatch addr metadata = (None, w)"
    by (simp add: WriteMetadataToCurrent_def batch_Put_def)
  obtain w' where l: "CommitAccount_loop c addr pending w = (None, w')"
    using CommitAccount_loop_ok [of c addr pending w]
    by (cases "CommitAccount_loop c addr pending w") simp
  from m l show ?thesis by (simp add: CommitAccount_def)
qed

lemma history_metadata_loop_ok: "fst (history_metadata_loop c addr bn mrec w) = None"
  by (induction c addr bn mrec w rule: history_metadata_loop.induct)
     (simp_all add: WriteMetadataToHistory_def batch_Put_def)

lemma history_slots_loop_ok: "fst (history_slots_loop addr bn txId slots w) = None"
  by (induction addr bn txId slots w rule: history_slots_loop.induct)
     (simp_all add: WriteStorageToHistory_def batch_Put_def)

lemma history_storage_loop_ok: "fst (history_storage_loop addr bn srec w) = None"
proof (induction addr bn srec w rule: history_storage_loop.induct)
  case (1 addr BlockNum w)
  then show ?case by simp
next
  case (2 addr BlockNum txId stroageList rest w)
  obtain w' where f: "history_slots_loop addr BlockNum txId stroageList w = (None, w')"
    using history_slots_loop_ok [of addr BlockNum txId stroageList w]
    by (cases "history_slots_loop addr BlockNum txId stroageList w") simp
  with "2.IH" show ?case by simp
qed

lemma CommitAccountToHistory_ok:
  "CommitAccountToHistory c hdb addr bn srec mrec = (None, hdb)"
proof -
  obtain w where m: "history_metadata_loop c addr bn mrec NewBatch = (None, w)"
    using history_metadata_loop_ok [of c addr bn mrec NewBatch]
    by (cases "history_metadata_loop c addr bn mrec NewBatch") simp
  obtain w' where l: "history_storage_loop addr bn srec w = (None, w')"
    using history_storage_loop_ok [of addr bn srec w]
    by (cases "history_storage_loop addr bn srec w") simp
  from m l show ?thesis by (simp add: CommitAccountToHistory_def)
qed

lemma SetBalance_then_Commit_run:
  "(case StateDB_SetBalance stub_deps emptyState addr1 44 of
      Inl p \<Rightarrow> False
    | Inr s1 \<Rightarrow>
        disk (currentDB s1) = [] \<and> hdisk (historyDB s1) = [] \<and>
        map_sum id fst (StateDB_GetBalance stub_deps s1 addr1) = Inr 44 \<and>
        (case Commit stub_deps s1 of
           Inr ((h, None), s2) \<Rightarrow> True
         | _ \<Rightarrow> False))"
  unfolding StateDB_SetBalance_def GetOrNewStateObject_emptyState
  by (simp add: stateObject_SetBalance_def newObject_def NewEmptyStateAccount_def
        setStateObject_def emptyState_def New_def newJournal_def journal_append_def
        count_of_def setBalance_def storeObject_def NewDatabase_def NewHistoryDB_def
        metadataRecord_store_def metadataRecord_lookup_def
        getStateObject_def getDeletedStateObject_def StateDB_GetBalance_def
        Commit_def Finalise_def Finalise_step_def finalise_def clearJournalAndRefund_def
        stateObject_commit_def CommitAccount_ok commitHistory_def
        CommitAccountToHistory_ok Let_def stub_deps_def)

theorem Commit_writes_nothing_witness:
  "\<exists>s1 h s2.
     StateDB_SetBalance stub_deps emptyState addr1 44 = Inr s1 \<and>
     map_sum id fst (StateDB_GetBalance stub_deps s1 addr1) = Inr 44 \<and>
     Commit stub_deps s1 = Inr ((h, None), s2) \<and>
     disk (currentDB s2) = [] \<and> hdisk (historyDB s2) = [] \<and>
     map_sum id fst
       (StateDB_GetBalance stub_deps
          (New (NewDatabase (disk (currentDB s2))) (NewHistoryDB (hdisk (historyDB s2)))) addr1)
       = Inr 0"
proof -
  from SetBalance_then_Commit_run
  obtain s1 h s2
    where sb: "StateDB_SetBalance stub_deps emptyState addr1 44 = Inr s1"
      and d1: "disk (currentDB s1) = []" "hdisk (historyDB s1) = []"
      and gb: "map_sum id fst (StateDB_GetBalance stub_deps s1 addr1) = Inr 44"
      and cm: "Commit stub_deps s1 = Inr ((h, None), s2)"
    by (auto split: sum.splits prod.splits option.splits)
  from Commit_writes_nothing [OF cm] d1
  have d2: "disk (currentDB s2) = []" "hdisk (historyDB s2) = []"
    by simp_all
  have fresh: "map_sum id fst
                 (StateDB_GetBalance stub_deps (New (NewDatabase []) (NewHistoryDB [])) addr1)
               = Inr 0"
    by (simp add: StateDB_GetBalance_def getStateObject_def getDeletedStateObject_def New_def)
  from sb gb cm d2 fresh show ?thesis by auto
qed

subsection \<open>The digest of a commit\<close>

text \<open>
  \<open>Commit\<close> hashes the values of the write-set in the order in which the
  \<open>range\<close> loop meets them; nothing sorts them. On a state database whose
  write-set holds two slots the two orders of traversal give different bytes
  to hash. No operation builds such a state: see below.
\<close>

lemma Commit_hashBytes_follows_traversal:
  "map_of [(hashOf 1, hashOf 11), (hashOf 2, hashOf 12)]
     = map_of [(hashOf 2, hashOf 12), (hashOf 1, hashOf 11)] \<and>
   Commit_hashBytes (emptyState\<lparr>writeSet := Some [(hashOf 1, hashOf 11), (hashOf 2, hashOf 12)]\<rparr>)
     = hashOf 11 @ hashOf 12 \<and>
   Commit_hashBytes (emptyState\<lparr>writeSet := Some [(hashOf 2, hashOf 12), (hashOf 1, hashOf 11)]\<rparr>)
     = hashOf 12 @ hashOf 11 \<and>
   hashOf 11 @ hashOf 12 \<noteq> hashOf 12 @ hashOf 11"
proof -
  have m: "map_of [(hashOf 1, hashOf 11), (hashOf 2, hashOf 12)]
             = map_of [(hashOf 2, hashOf 12), (hashOf 1, hashOf 11)]"
    by (rule ext) simp
  have n: "hashOf 11 @ hashOf 12 \<noteq> hashOf 12 @ hashOf 11"
    by (simp add: hashOf_def)
  from m n show ?thesis by (simp add: Commit_hashBytes_def)
qed

text \<open>
  A state database without a write-set stays without one: \<open>New\<close> and
  \<open>Copy\<close> leave the field unset, the only assignment into it is the one in
  the commit of a state object, and that one panics on the unset map.
\<close>

lemma setError_writeSet [simp]: "writeSet (setError s e) = writeSet s"
  by (simp add: setError_def)

lemma storeObject_writeSet [simp]: "writeSet (storeObject s a obj) = writeSet s"
  by (simp add: storeObject_def)

lemma setStateObject_writeSet [simp]: "writeSet (setStateObject s obj) = writeSet s"
  by (simp add: setStateObject_def)
























section \<open>The transaction pool\<close>

lemma pool_inv_empty: "pool_inv emptyPool"
  by (simp add: pool_inv_def emptyPool_def)

lemma map_fst_filter_pair:
  "map fst (filter (\<lambda>(t, local). q t) xs) = filter q (map fst xs)"
  by (induction xs) auto

lemma remote_filter_commute:
  "map fst (filter (\<lambda>(t, local). \<not> local) (filter (\<lambda>(t, local). q t) xs))
     = filter q (map fst (filter (\<lambda>(t, local). \<not> local) xs))"
  by (induction xs) auto

lemma pool_inv_drop: "pool_inv P \<Longrightarrow> pool_inv (pool_drop p P)"
proof -
  assume i: "pool_inv P"
  have a: "mset (filter (\<lambda>t. \<not> p t) (pool_pending P)) + mset (filter (\<lambda>t. \<not> p t) (pool_queue P))
             = mset (map fst (filter (\<lambda>(t, local). \<not> p t) (pool_all P)))"
  proof -
    have "mset (filter (\<lambda>t. \<not> p t) (pool_pending P)) + mset (filter (\<lambda>t. \<not> p t) (pool_queue P))
            = filter_mset (\<lambda>t. \<not> p t) (mset (pool_pending P) + mset (pool_queue P))"
      by simp
    also have "\<dots> = filter_mset (\<lambda>t. \<not> p t) (mset (map fst (pool_all P)))"
      using i by (simp add: pool_inv_def)
    also have "\<dots> = mset (map fst (filter (\<lambda>(t, local). \<not> p t) (pool_all P)))"
      by (simp only: map_fst_filter_pair [of "\<lambda>t. \<not> p t"] mset_filter)
    finally show ?thesis .
  qed
  have b: "mset (filter (\<lambda>t. \<not> p t) (priced_urgent P))
             + mset (filter (\<lambda>t. \<not> p t) (priced_floating P))
           = mset (map fst (filter (\<lambda>(t, local). \<not> local)
                              (filter (\<lambda>(t, local). \<not> p t) (pool_all P))))"
  proof -
    have "mset (filter (\<lambda>t. \<not> p t) (priced_urgent P))
            + mset (filter (\<lambda>t. \<not> p t) (priced_floating P))
          = filter_mset (\<lambda>t. \<not> p t) (mset (priced_urgent P) + mset (priced_floating P))"
      by simp
    also have "\<dots> = filter_mset (\<lambda>t. \<not> p t)
                        (mset (map fst (filter (\<lambda>(t, local). \<not> local) (pool_all P))))"
      using i by (simp add: pool_inv_def)
    also have "\<dots> = mset (map fst (filter (\<lambda>(t, local). \<not> local)
                                      (filter (\<lambda>(t, local). \<not> p t) (pool_all P))))"
      by (simp only: remote_filter_commute [of "\<lambda>t. \<not> p t"] mset_filter)
    finally show ?thesis .
  qed
  from a b show ?thesis by (simp add: pool_inv_def pool_drop_def)
qed

lemma pool_inv_promote: "pool_inv P \<Longrightarrow> pool_inv (pool_promote p P)"
  by (simp add: pool_inv_def pool_promote_def add.assoc [symmetric])
     (metis add.assoc add.commute multiset_partition)

lemma pool_inv_demote: "pool_inv P \<Longrightarrow> pool_inv (pool_demote p P)"
  by (simp add: pool_inv_def pool_demote_def)
     (metis add.assoc add.commute multiset_partition)

lemma pool_inv_insert: "pool_inv P \<Longrightarrow> pool_inv (pool_insert t local to_pending P)"
  by (auto simp: pool_inv_def pool_insert_def Let_def)

lemma pool_inv_gas_tip: "pool_inv P \<Longrightarrow> pool_inv (P\<lparr>gas_tip := tip\<rparr>)"
  by (simp add: pool_inv_def)

lemma pool_inv_fold:
  assumes "\<And>a Q. pool_inv Q \<Longrightarrow> pool_inv (f a Q)"
  shows "pool_inv P \<Longrightarrow> pool_inv (fold f as P)"
  by (induction as arbitrary: P) (simp_all add: assms)

lemma pool_inv_replace_or_route:
  "pool_inv P \<Longrightarrow> pool_inv (snd (replace_or_route cfg view t local P))"
  by (auto simp: replace_or_route_def pool_inv_insert pool_inv_drop split: option.splits)

lemma pool_inv_add: "pool_inv P \<Longrightarrow> pool_inv (snd (pool_add cfg view t local P))"
  by (auto simp: pool_add_def pool_inv_replace_or_route pool_inv_drop split: option.splits)

lemma pool_inv_promote_account: "pool_inv P \<Longrightarrow> pool_inv (promote_account view a P)"
  by (simp add: promote_account_def Let_def pool_inv_promote pool_inv_drop)

lemma pool_inv_promoteExecutables:
  "pool_inv P \<Longrightarrow> pool_inv (promoteExecutables view accounts P)"
  unfolding promoteExecutables_def
  by (rule pool_inv_fold) (simp_all add: pool_inv_promote_account)

lemma pool_inv_demote_account: "pool_inv P \<Longrightarrow> pool_inv (demote_account view a P)"
  by (simp add: demote_account_def Let_def pool_inv_demote pool_inv_drop)

lemma pool_inv_demoteUnexecutables: "pool_inv P \<Longrightarrow> pool_inv (demoteUnexecutables view P)"
  unfolding demoteUnexecutables_def
  by (rule pool_inv_fold) (simp_all add: pool_inv_demote_account)

lemma pool_inv_SetGasTip: "pool_inv P \<Longrightarrow> pool_inv (SetGasTip view tip P)"
  unfolding SetGasTip_def Let_def
  by (rule pool_inv_fold)
     (simp_all add: demote_gapped_def pool_inv_demote pool_inv_drop pool_inv_gas_tip)

lemma pool_inv_reset: "pool_inv P \<Longrightarrow> pool_inv (pool_reset cfg view reinject P)"
  unfolding pool_reset_def
  by (intro pool_inv_promoteExecutables pool_inv_demoteUnexecutables pool_inv_fold)
     (simp_all add: pool_inv_add)

lemma pool_inv_step: "pool_inv P \<Longrightarrow> pool_inv (pool_step cfg s P)"
proof -
  assume i: "pool_inv P"
  obtain view op where s: "s = (view, op)" by (cases s)
  show ?thesis
    using i
    by (cases op)
       (simp_all add: s pool_inv_add pool_inv_promoteExecutables pool_inv_demoteUnexecutables
          pool_inv_SetGasTip pool_inv_reset removeTx_def pool_inv_drop)
qed

lemma pool_inv_run: "pool_inv (pool_run cfg steps)"
  unfolding pool_run_def
  by (rule pool_inv_fold) (simp_all add: pool_inv_step pool_inv_empty)

text \<open>
  C9. Whatever steps the pool has run from its start (admissions, promotions,
  demotions, repricing, resets, removals, evictions), once the step is over
  the pending and the queued transactions together number \<open>all.Count()\<close>, and
  the two halves of the price heap together number \<open>all.RemoteCount()\<close>.
\<close>

theorem pool_counts_at_rest:
  "fst (pool_stats (pool_run cfg steps)) + snd (pool_stats (pool_run cfg steps))
     = all_Count (pool_run cfg steps) \<and>
   length (priced_urgent (pool_run cfg steps)) + length (priced_floating (pool_run cfg steps))
     = all_RemoteCount (pool_run cfg steps)"
proof -
  define P where "P = pool_run cfg steps"
  have i: "pool_inv P" unfolding P_def by (rule pool_inv_run)
  have "size (mset (pool_pending P) + mset (pool_queue P)) = size (mset (map fst (pool_all P)))"
    using i by (simp only: pool_inv_def)
  then have a: "length (pool_pending P) + length (pool_queue P) = length (pool_all P)"
    by (simp only: size_union size_mset length_map)
  have "size (mset (priced_urgent P) + mset (priced_floating P))
          = size (mset (map fst (filter (\<lambda>(t, local). \<not> local) (pool_all P))))"
    using i by (simp only: pool_inv_def)
  then have b: "length (priced_urgent P) + length (priced_floating P)
                  = length (filter (\<lambda>(t, local). \<not> local) (pool_all P))"
    by (simp only: size_union size_mset length_map)
  from a b show ?thesis
    by (simp add: P_def pool_stats_def all_Count_def all_RemoteCount_def)
qed

lemma sample_run_stats:
  "pool_stats (pool_run sample_cfg
       [(sample_view, Add (sample_tx 1 0) False), (sample_view, Add (sample_tx 2 2) False)])
     = (1, 1) \<and>
   length (priced_urgent (pool_run sample_cfg
       [(sample_view, Add (sample_tx 1 0) False), (sample_view, Add (sample_tx 2 2) False)]))
     = 2 \<and>
   priced_floating (pool_run sample_cfg
       [(sample_view, Add (sample_tx 1 0) False), (sample_view, Add (sample_tx 2 2) False)])
     = []"
  by (simp add: pool_run_def pool_add_def known_def emptyPool_def validateTx_def
        sample_cfg_def sample_view_def sample_tx_def tx_cost_def all_Slots_def tx_slots_def
        replace_or_route_def pending_nonce_def pending_of_def pool_insert_def pool_stats_def
        Let_def)

theorem pool_counts_at_rest_witness:
  "pool_stats (pool_run sample_cfg
       [(sample_view, Add (sample_tx 1 0) False), (sample_view, Add (sample_tx 2 2) False)])
     = (1, 1) \<and>
   all_Count (pool_run sample_cfg
       [(sample_view, Add (sample_tx 1 0) False), (sample_view, Add (sample_tx 2 2) False)])
     = 2 \<and>
   all_RemoteCount (pool_run sample_cfg
       [(sample_view, Add (sample_tx 1 0) False), (sample_view, Add (sample_tx 2 2) False)])
     = 2"
  using pool_counts_at_rest
          [of sample_cfg
              "[(sample_view, Add (sample_tx 1 0) False), (sample_view, Add (sample_tx 2 2) False)]"]
        sample_run_stats
  by simp

end
